theory Spec2Isabelle
  imports Complex_Main "HOL-Library.Multiset"
begin

section \<open>Processing-job routes of the server (src/server/routes/jobs.ts)\<close>

text \<open>
  The handlers of \<^verbatim>\<open>routes/jobs.ts\<close> are embedded as functions over an explicit
  database value. A handler that throws returns \<open>Inl\<close> of the error; a handler that
  answers returns \<open>Inr\<close> of its response and, for the three POST routes, the list of
  database values after each of its \<^verbatim>\<open>await db.insert/update\<close> statements, in
  program order (every throw of these handlers comes before their first write).

  Conventions: a \<^verbatim>\<open>Date\<close> is its epoch time in milliseconds (\<open>int\<close>), and
  \<^verbatim>\<open>toISOString()\<close> is not rendered; every \<^verbatim>\<open>new Date()\<close> and
  \<^verbatim>\<open>defaultNow()\<close> of one request reads the same instant \<open>now\<close>. A JavaScript
  number that holds an integer is an \<open>int\<close>. The quotients of the progress endpoint are
  exact rationals (\<open>rat\<close>): the rounding of the source's IEEE doubles is not modelled
  (\<open>inputRecordCount * progress / 100\<close> is exact in a double for 32-bit counts and a
  progress up to 100). The integers that \<^verbatim>\<open>parseInt\<close> reads are rounded to the
  nearest double, as are the difference and the product of the pagination offset.

  A JavaScript string is the byte string of its UTF-8 encoding (\<open>string\<close>). A query
  value is a string or absent; an array or object value stands for its
  \<^verbatim>\<open>ToString\<close>.

  A query whose integer parameter does not fit the column type (\<open>int4\<close> for the ids,
  \<open>bigint\<close> for \<^verbatim>\<open>OFFSET\<close>) makes the database driver throw. The sequences of
  the \<^verbatim>\<open>serial\<close> columns are not exhausted. Of the foreign keys, the one from a
  schema mapping to its data source matters below: the sample databases keep it.

  The JWT check of \<^verbatim>\<open>requireAuth\<close> and the rate limiter are outside the
  embedding: a handler receives the verified token payload.

  The handler functions serve one request from its first statement to its last. The
  statements of a handler are separately awaited and run in no transaction, so the
  statements of several requests can interleave: the subsection on interleaved requests
  gives the write statements of the handlers one by one, with a scheduler.
\<close>

subsection \<open>Errors (src/server/errors/index.ts)\<close>

datatype app_error =
    BadRequestError (message: string) (code: string)
  | UnauthorizedError (message: string) (code: string)
  | ForbiddenError (message: string) (code: string)
  | NotFoundError (message: string) (code: string)
  | SyntaxError \<comment> \<open>thrown by \<^verbatim>\<open>JSON.parse\<close>; not an \<^verbatim>\<open>AppError\<close>\<close>
  | DatabaseError \<comment> \<open>thrown by the database driver; not an \<^verbatim>\<open>AppError\<close>\<close>

subsection \<open>Parameter parsing (lib/validation.ts)\<close>

definition isWhiteSpace1 :: "char \<Rightarrow> bool" where
  \<comment> \<open>TAB, LF, VT, FF, CR, SP\<close>
  "isWhiteSpace1 a = (of_char a \<in> set [9, 10, 11, 12, 13, 32 :: nat])"

definition isWhiteSpace2 :: "char \<Rightarrow> char \<Rightarrow> bool" where
  \<comment> \<open>U+00A0, in UTF-8\<close>
  "isWhiteSpace2 a b = ((of_char a :: nat) = 194 \<and> (of_char b :: nat) = 160)"

definition isWhiteSpace3 :: "char \<Rightarrow> char \<Rightarrow> char \<Rightarrow> bool" where
  \<comment> \<open>U+1680, U+2000 to U+200A, U+2028, U+2029, U+202F, U+205F, U+3000, U+FEFF, in UTF-8\<close>
  "isWhiteSpace3 a b c =
     (let x = (of_char a :: nat); y = (of_char b :: nat); z = (of_char c :: nat)
      in (x = 225 \<and> y = 154 \<and> z = 128)
       \<or> (x = 226 \<and> y = 128 \<and> ((128 \<le> z \<and> z \<le> 138) \<or> z = 168 \<or> z = 169 \<or> z = 175))
       \<or> (x = 226 \<and> y = 129 \<and> z = 159)
       \<or> (x = 227 \<and> y = 128 \<and> z = 128)
       \<or> (x = 239 \<and> y = 187 \<and> z = 191))"

fun skipWhiteSpace :: "string \<Rightarrow> string" where
  \<comment> \<open>drops the leading characters of ECMAScript's StrWhiteSpaceChar (WhiteSpace and
      LineTerminator)\<close>
  "skipWhiteSpace (a # b # c # cs) =
     (if isWhiteSpace1 a then skipWhiteSpace (b # c # cs)
      else if isWhiteSpace2 a b then skipWhiteSpace (c # cs)
      else if isWhiteSpace3 a b c then skipWhiteSpace cs
      else a # b # c # cs)"
| "skipWhiteSpace [a, b] =
     (if isWhiteSpace1 a then skipWhiteSpace [b]
      else if isWhiteSpace2 a b then []
      else [a, b])"
| "skipWhiteSpace [a] = (if isWhiteSpace1 a then [] else [a])"
| "skipWhiteSpace [] = []"

definition isDigit :: "char \<Rightarrow> bool" where
  "isDigit c = (48 \<le> (of_char c :: nat) \<and> (of_char c :: nat) \<le> 57)"

definition digitValue :: "char \<Rightarrow> int" where
  "digitValue c = int (of_char c) - 48"

function bitLength :: "int \<Rightarrow> nat" where
  "bitLength n = (if n \<le> 0 then 0 else Suc (bitLength (n div 2)))"
  by pat_completeness auto
termination
  by (relation "measure nat") auto

definition toNumber :: "int \<Rightarrow> int" where
  \<comment> \<open>the double nearest to an integer, a tie going to the even significand (53 bits);
      for magnitudes that do not overflow\<close>
  "toNumber n =
     (let a = \<bar>n\<bar>;
          e = bitLength a - 53;
          q = a div 2 ^ e;
          r = a mod 2 ^ e;
          m = (if 2 * r > 2 ^ e \<or> (2 * r = 2 ^ e \<and> odd q) then q + 1 else q) * 2 ^ e
      in if n < 0 then - m else m)"

datatype js_number = NaN | Infinity | Number int

definition parseInt :: "string \<Rightarrow> js_number" where
  \<comment> \<open>\<^verbatim>\<open>parseInt(value, 10)\<close>: leading white space, an optional sign, the longest
      run of decimal digits, read as a double; \<open>Infinity\<close> is either infinity.\<close>
  "parseInt value =
     (let s = skipWhiteSpace value;
          neg = (case s of [] \<Rightarrow> False | c # _ \<Rightarrow> c = CHR ''-'');
          r = (case s of [] \<Rightarrow> [] | c # cs \<Rightarrow> if c = CHR ''-'' \<or> c = CHR ''+'' then cs else s);
          z = takeWhile isDigit r;
          n = foldl (\<lambda>a c. 10 * a + digitValue c) 0 z
      in if z = [] then NaN
         else if n \<ge> 2 ^ 1024 - 2 ^ 970 then Infinity
         else Number (toNumber (if neg then - n else n)))"

definition parseIntParam :: "string \<Rightarrow> string \<Rightarrow> app_error + int" where
  "parseIntParam value paramName =
     (case parseInt value of
        NaN \<Rightarrow> Inl (BadRequestError (''Invalid '' @ paramName @ '': must be a positive integer'') ''INVALID_ID'')
      | Infinity \<Rightarrow> Inl (BadRequestError (''Invalid '' @ paramName @ '': must be a positive integer'') ''INVALID_ID'')
      | Number parsed \<Rightarrow>
          if parsed \<le> 0
          then Inl (BadRequestError (''Invalid '' @ paramName @ '': must be a positive integer'') ''INVALID_ID'')
          else Inr parsed)"

fun showNat :: "nat \<Rightarrow> string" where
  "showNat n = (if n < 10 then [char_of (48 + n)] else showNat (n div 10) @ [char_of (48 + n mod 10)])"

definition showInt :: "int \<Rightarrow> string" where
  \<comment> \<open>the decimal rendering of an integer inside a template literal\<close>
  "showInt i = (if i < 0 then CHR ''-'' # showNat (nat (- i)) else showNat (nat i))"

definition parseQueryInt ::
  "string option \<Rightarrow> string \<Rightarrow> int \<Rightarrow> int option \<Rightarrow> int option \<Rightarrow> app_error + int" where
  "parseQueryInt value paramName defaultValue minv maxv =
     (case value of
        None \<Rightarrow> Inr defaultValue
      | Some v \<Rightarrow>
          (case parseInt v of
             NaN \<Rightarrow> Inl (BadRequestError (''Invalid '' @ paramName @ '': must be an integer'') ''VALIDATION_ERROR'')
           | Infinity \<Rightarrow> Inl (BadRequestError (''Invalid '' @ paramName @ '': must be an integer'') ''VALIDATION_ERROR'')
           | Number parsed \<Rightarrow>
               if minv \<noteq> None \<and> parsed < the minv
               then Inl (BadRequestError (''Invalid '' @ paramName @ '': must be at least '' @ showInt (the minv)) ''VALIDATION_ERROR'')
               else if maxv \<noteq> None \<and> parsed > the maxv
               then Inl (BadRequestError (''Invalid '' @ paramName @ '': must be at most '' @ showInt (the maxv)) ''VALIDATION_ERROR'')
               else Inr parsed))"

record query =
  query_page :: "string option"
  query_page_size :: "string option"
  query_status :: "string option"

record pagination_params =
  pp_page :: int
  pp_limit :: int
  pp_offset :: int

definition parsePaginationParams :: "query \<Rightarrow> app_error + pagination_params" where
  "parsePaginationParams q =
     (case parseQueryInt (query_page q) ''page'' 1 (Some 1) None of
        Inl e \<Rightarrow> Inl e
      | Inr page \<Rightarrow>
          (case parseQueryInt (query_page_size q) ''page_size'' 20 (Some 1) (Some 100) of
             Inl e \<Rightarrow> Inl e
           | Inr limit \<Rightarrow>
               Inr \<lparr>pp_page = page, pp_limit = limit,
                    pp_offset = toNumber (toNumber (page - 1) * limit)\<rparr>))"

record pagination =
  pg_page :: int
  pg_pageSize :: int
  pg_totalPages :: int
  pg_totalCount :: int

definition calculatePagination :: "int \<Rightarrow> int \<Rightarrow> int \<Rightarrow> pagination" where
  "calculatePagination page limit totalCount =
     \<lparr>pg_page = page, pg_pageSize = limit,
      pg_totalPages = \<lceil>(of_int totalCount :: rat) / of_int limit\<rceil>,
      pg_totalCount = totalCount\<rparr>"

subsection \<open>Tables (db/schema.ts), with the columns the job routes read or write\<close>

record project =
  project_id :: int
  project_organisationId :: int
  project_deletedAt :: "int option"

record data_source =
  source_id :: int
  source_name :: string
  source_recordCount :: "int option"
  source_status :: string
  source_deletedAt :: "int option" \<comment> \<open>set by the soft delete of the data-source routes\<close>

record schema_mapping =
  mapping_id :: int
  mapping_projectId :: int
  mapping_dataSourceId :: int
  mapping_isActive :: int

record processing_job =
  job_id :: int
  organisationId :: int
  projectId :: int
  schemaMappingId :: int
  dataSourceId :: int
  status :: string
  outputFormat :: string
  outputName :: "string option"
  inputRecordCount :: int
  outputRecordCount :: "int option"
  piiDetectedCount :: "int option"
  progress :: int
  currentStage :: "string option"
  errorMessage :: "string option"
  startedAt :: "int option"
  completedAt :: "int option"
  createdAt :: int
  updatedAt :: int

record job_log =
  log_id :: int
  log_jobId :: int
  log_level :: string
  log_message :: string
  log_details :: "string option"
  log_createdAt :: int

record database =
  projects :: "project list"
  dataSources :: "data_source list"
  schemaMappings :: "schema_mapping list"
  processingJobs :: "processing_job list"
  jobLogs :: "job_log list"
  processingJobs_id_seq :: int
  jobLogs_id_seq :: int

text \<open>
  \<^verbatim>\<open>insert(...).values(...).returning()\<close>: the \<^verbatim>\<open>serial\<close> id comes from the
  table's sequence, the columns left out take their defaults (\<^verbatim>\<open>defaultNow()\<close> for
  the timestamps, null otherwise).
\<close>

definition insert_processingJobs ::
  "database \<Rightarrow> (int \<Rightarrow> processing_job) \<Rightarrow> database \<times> processing_job" where
  "insert_processingJobs db vals =
     (let row = vals (processingJobs_id_seq db)
      in (db\<lparr>processingJobs := processingJobs db @ [row],
              processingJobs_id_seq := processingJobs_id_seq db + 1\<rparr>, row))"

definition insert_jobLogs :: "database \<Rightarrow> int \<Rightarrow> string \<Rightarrow> string \<Rightarrow> int \<Rightarrow> database" where
  "insert_jobLogs db jobId level msg now =
     db\<lparr>jobLogs := jobLogs db @
           [\<lparr>log_id = jobLogs_id_seq db, log_jobId = jobId, log_level = level,
             log_message = msg, log_details = None, log_createdAt = now\<rparr>],
        jobLogs_id_seq := jobLogs_id_seq db + 1\<rparr>"

definition update_processingJobs ::
  "database \<Rightarrow> int \<Rightarrow> (processing_job \<Rightarrow> processing_job) \<Rightarrow> database" where
  \<comment> \<open>\<^verbatim>\<open>update(processingJobs).set(...).where(eq(processingJobs.id, jobId))\<close>\<close>
  "update_processingJobs db jobId upd =
     db\<lparr>processingJobs := map (\<lambda>j. if job_id j = jobId then upd j else j) (processingJobs db)\<rparr>"

definition int4 :: "int \<Rightarrow> bool" where
  \<comment> \<open>the values of an \<^verbatim>\<open>integer\<close> column; comparing such a column with a parameter
      outside this range makes the query throw\<close>
  "int4 n = (- (2 ^ 31) \<le> n \<and> n \<le> 2 ^ 31 - 1)"

definition findJob :: "database \<Rightarrow> int \<Rightarrow> app_error + processing_job option" where
  \<comment> \<open>\<^verbatim>\<open>db.query.processingJobs.findFirst({ where: eq(processingJobs.id, jobId) })\<close>\<close>
  "findJob db jobId =
     (if int4 jobId then Inr (find (\<lambda>j. job_id j = jobId) (processingJobs db))
      else Inl DatabaseError)"

subsection \<open>Middleware (middleware/auth.ts, middleware/validation.ts)\<close>

record jwt_payload =
  jwt_userId :: int
  jwt_email :: string
  jwt_organisationId :: int
  jwt_role :: string

definition requireRole :: "string list \<Rightarrow> jwt_payload \<Rightarrow> app_error + unit" where
  "requireRole roles user =
     (if jwt_role user \<notin> set roles
      then Inl (ForbiddenError ''Insufficient permissions'' ''FORBIDDEN'')
      else Inr ())"

record create_job_body =
  body_schemaMappingId :: int
  body_outputFormat :: string
  body_outputName :: "string option"

definition utf16_length :: "string \<Rightarrow> nat" where
  \<comment> \<open>the \<^verbatim>\<open>length\<close> of the JavaScript string, in UTF-16 code units, from its UTF-8
      bytes: one unit for each character, two for a character of four bytes\<close>
  "utf16_length s =
     length (filter (\<lambda>c. (of_char c :: nat) < 128 \<or> 192 \<le> (of_char c :: nat)) s)
     + length (filter (\<lambda>c. 240 \<le> (of_char c :: nat)) s)"

definition validateBody_createJobSchema :: "create_job_body \<Rightarrow> app_error + unit" where
  "validateBody_createJobSchema body =
     (if body_schemaMappingId body > 0
         \<and> body_outputFormat body \<in> set [''json'', ''csv'', ''jsonl'']
         \<and> (case body_outputName body of None \<Rightarrow> True | Some n \<Rightarrow> utf16_length n \<le> 200)
      then Inr ()
      else Inl (BadRequestError ''Validation failed'' ''VALIDATION_ERROR''))"

subsection \<open>Handlers (routes/jobs.ts)\<close>

definition verifyProjectAccess :: "database \<Rightarrow> int \<Rightarrow> int \<Rightarrow> app_error + project" where
  "verifyProjectAccess db pid orgId =
     (if \<not> int4 pid then Inl DatabaseError
      else
        (case find (\<lambda>p. project_id p = pid \<and> project_deletedAt p = None) (projects db) of
           None \<Rightarrow> Inl (NotFoundError ''Project not found'' ''NOT_FOUND'')
         | Some p \<Rightarrow>
             if project_organisationId p \<noteq> orgId
             then Inl (ForbiddenError ''Access denied to this project'' ''FORBIDDEN'')
             else Inr p))"

text \<open>POST /projects/:projectId/jobs\<close>

definition findMapping :: "database \<Rightarrow> int \<Rightarrow> int \<Rightarrow> app_error + schema_mapping option" where
  \<comment> \<open>\<^verbatim>\<open>schemaMappings.findFirst\<close> by id and project (lines 141 to 147)\<close>
  "findMapping db smId pid =
     (if int4 smId \<and> int4 pid
      then Inr (find (\<lambda>m. mapping_id m = smId \<and> mapping_projectId m = pid) (schemaMappings db))
      else Inl DatabaseError)"

definition relatedDataSource :: "database \<Rightarrow> schema_mapping \<Rightarrow> data_source option" where
  \<comment> \<open>the relation \<^verbatim>\<open>with: { dataSource: true }\<close>, null when no row has the id
      (the foreign key of the mapping excludes that); soft-deleted rows are not filtered\<close>
  "relatedDataSource db mapping =
     find (\<lambda>s. source_id s = mapping_dataSourceId mapping) (dataSources db)"

record created_job =
  cj_id :: int
  cj_projectId :: int
  cj_dataSourceId :: int
  cj_schemaMappingId :: int
  cj_status :: string
  cj_outputFormat :: string
  cj_outputName :: "string option"
  cj_progress :: int
  cj_currentStage :: string
  cj_createdAt :: int

definition createJob_values ::
  "jwt_payload \<Rightarrow> int \<Rightarrow> schema_mapping \<Rightarrow> data_source \<Rightarrow> create_job_body \<Rightarrow> int \<Rightarrow> int
     \<Rightarrow> processing_job" where
  \<comment> \<open>the row of lines 165 to 175, for the id \<open>i\<close> the sequence supplies\<close>
  "createJob_values user pid mapping dataSource body now i =
     \<lparr>job_id = i,
      organisationId = jwt_organisationId user,
      projectId = pid,
      schemaMappingId = mapping_id mapping,
      dataSourceId = source_id dataSource,
      status = ''pending'',
      outputFormat = body_outputFormat body,
      outputName =
        (case body_outputName body of
           None \<Rightarrow> Some (source_name dataSource @ ''-output'')
         | Some n \<Rightarrow> if n = [] then Some (source_name dataSource @ ''-output'') else Some n),
      inputRecordCount = (case source_recordCount dataSource of None \<Rightarrow> 0 | Some n \<Rightarrow> n),
      outputRecordCount = None,
      piiDetectedCount = None,
      progress = 0,
      currentStage = None,
      errorMessage = None,
      startedAt = None,
      completedAt = None,
      createdAt = now,
      updatedAt = now\<rparr>"

definition createJob ::
  "database \<Rightarrow> jwt_payload \<Rightarrow> string \<Rightarrow> create_job_body \<Rightarrow> int
     \<Rightarrow> app_error + (database list \<times> created_job)" where
  "createJob db user projectIdParam body now =
     (case requireRole [''admin'', ''editor''] user of Inl e \<Rightarrow> Inl e | Inr _ \<Rightarrow>
      (case validateBody_createJobSchema body of Inl e \<Rightarrow> Inl e | Inr _ \<Rightarrow>
      (case parseIntParam projectIdParam ''projectId'' of Inl e \<Rightarrow> Inl e | Inr pid \<Rightarrow>
      (case verifyProjectAccess db pid (jwt_organisationId user) of Inl e \<Rightarrow> Inl e | Inr _ \<Rightarrow>
      (case findMapping db (body_schemaMappingId body) pid of
        Inl e \<Rightarrow> Inl e
      | Inr None \<Rightarrow> Inl (NotFoundError ''Schema mapping not found in this project'' ''NOT_FOUND'')
      | Inr (Some mapping) \<Rightarrow>
          if mapping_isActive mapping \<noteq> 1
          then Inl (BadRequestError ''Schema mapping is not active'' ''BAD_REQUEST'')
          else
            (case relatedDataSource db mapping of
               None \<Rightarrow> Inl (BadRequestError ''Data source is not ready for processing'' ''BAD_REQUEST'')
             | Some dataSource \<Rightarrow>
                 if source_status dataSource \<noteq> ''ready''
                 then Inl (BadRequestError ''Data source is not ready for processing'' ''BAD_REQUEST'')
                 else
                   (let (db1, job) = insert_processingJobs db
                                       (createJob_values user pid mapping dataSource body now);
                        db2 = insert_jobLogs db1 (job_id job) ''info''
                                ''Job created and queued for processing'' now;
                        db3 = update_processingJobs db2 (job_id job)
                                (\<lambda>j. j\<lparr>status := ''processing'', startedAt := Some now,
                                         currentStage := Some ''initializing''\<rparr>)
                    in Inr ([db1, db2, db3],
                            \<lparr>cj_id = job_id job,
                             cj_projectId = projectId job,
                             cj_dataSourceId = dataSourceId job,
                             cj_schemaMappingId = schemaMappingId job,
                             cj_status = ''processing'',
                             cj_outputFormat = outputFormat job,
                             cj_outputName = outputName job,
                             cj_progress = 0,
                             cj_currentStage = ''initializing'',
                             cj_createdAt = createdAt job\<rparr>))))))))"

text \<open>GET /jobs/:jobId/progress\<close>

definition Math_round :: "rat \<Rightarrow> int" where
  \<comment> \<open>the nearest integer, a tie going up\<close>
  "Math_round x = \<lfloor>x + 1 / 2\<rfloor>"

record progress_snapshot =
  ps_jobId :: int
  ps_status :: string
  ps_currentStage :: "string option"
  ps_overallProgress :: int
  ps_processedRecords :: int
  ps_totalRecords :: int
  ps_estimatedTimeRemaining :: "int option"
  ps_piiDetectedCount :: "int option"

definition estimateTimeRemaining :: "processing_job \<Rightarrow> int \<Rightarrow> int option" where
  \<comment> \<open>lines 279 to 284; \<open>now\<close> is \<^verbatim>\<open>Date.now()\<close>\<close>
  "estimateTimeRemaining job now =
     (if status job = ''processing'' \<and> progress job > 0 \<and> startedAt job \<noteq> None
      then
        (let elapsed = now - the (startedAt job);
             estimatedTotal = (of_int elapsed / of_int (progress job)) * (100 :: rat)
         in Some (max 0 (Math_round ((estimatedTotal - of_int elapsed) / 1000))))
      else None)"

definition getJobProgress ::
  "database \<Rightarrow> jwt_payload \<Rightarrow> string \<Rightarrow> int \<Rightarrow> app_error + progress_snapshot" where
  "getJobProgress db user jobIdParam now =
     (case parseIntParam jobIdParam ''jobId'' of Inl e \<Rightarrow> Inl e | Inr jobId \<Rightarrow>
      (case findJob db jobId of
        Inl e \<Rightarrow> Inl e
      | Inr None \<Rightarrow> Inl (NotFoundError ''Job not found'' ''NOT_FOUND'')
      | Inr (Some job) \<Rightarrow>
          if organisationId job \<noteq> jwt_organisationId user
          then Inl (ForbiddenError ''Access denied to this job'' ''FORBIDDEN'')
          else Inr
            \<lparr>ps_jobId = job_id job,
             ps_status = status job,
             ps_currentStage = currentStage job,
             ps_overallProgress = progress job,
             ps_processedRecords =
               Math_round (of_int (inputRecordCount job * progress job) / 100),
             ps_totalRecords = inputRecordCount job,
             ps_estimatedTimeRemaining = estimateTimeRemaining job now,
             ps_piiDetectedCount = piiDetectedCount job\<rparr>))"

text \<open>GET /jobs/:jobId/logs\<close>

definition orderBy_desc :: "('a \<Rightarrow> int) \<Rightarrow> 'a list \<Rightarrow> 'a list" where
  \<comment> \<open>\<^verbatim>\<open>orderBy: desc(column)\<close>; SQL leaves the order of rows with equal keys open,
      here they keep their table order\<close>
  "orderBy_desc key rows = sort_key (\<lambda>r. - key r) rows"

definition limit_offset :: "int \<Rightarrow> int \<Rightarrow> 'a list \<Rightarrow> 'a list" where
  \<comment> \<open>\<^verbatim>\<open>LIMIT limit OFFSET offset\<close>, for an offset that is not negative\<close>
  "limit_offset limit offset rows =
     (if offset \<ge> int (length rows) then [] else take (nat limit) (drop (nat offset) rows))"

record 'j log_view =
  lv_id :: int
  lv_level :: string
  lv_message :: string
  lv_details :: "'j option"
  lv_timestamp :: int

definition formatLog :: "(string \<Rightarrow> 'j option) \<Rightarrow> job_log \<Rightarrow> app_error + 'j log_view" where
  \<comment> \<open>\<^verbatim>\<open>details: log.details ? JSON.parse(log.details) : null\<close>; the empty string is
      falsy, and \<^verbatim>\<open>JSON.parse\<close> (a parameter, \<open>None\<close> when it throws) may fail\<close>
  "formatLog JSON_parse entry =
     (case log_details entry of
        None \<Rightarrow> Inr \<lparr>lv_id = log_id entry, lv_level = log_level entry, lv_message = log_message entry,
                      lv_details = None, lv_timestamp = log_createdAt entry\<rparr>
      | Some d \<Rightarrow>
          if d = [] then Inr \<lparr>lv_id = log_id entry, lv_level = log_level entry,
                               lv_message = log_message entry, lv_details = None,
                               lv_timestamp = log_createdAt entry\<rparr>
          else
            (case JSON_parse d of
               None \<Rightarrow> Inl SyntaxError
             | Some v \<Rightarrow> Inr \<lparr>lv_id = log_id entry, lv_level = log_level entry,
                                lv_message = log_message entry, lv_details = Some v,
                                lv_timestamp = log_createdAt entry\<rparr>))"

fun mapM :: "('a \<Rightarrow> app_error + 'b) \<Rightarrow> 'a list \<Rightarrow> app_error + 'b list" where
  "mapM f [] = Inr []"
| "mapM f (x # xs) =
     (case f x of
        Inl e \<Rightarrow> Inl e
      | Inr y \<Rightarrow> (case mapM f xs of Inl e \<Rightarrow> Inl e | Inr ys \<Rightarrow> Inr (y # ys)))"

text \<open>
  \<^verbatim>\<open>OFFSET\<close> is a \<^verbatim>\<open>bigint\<close>: the page query throws for an offset above
  \<open>2^63 - 1\<close>. The driver sends the offset as the decimal text of the double, which for
  an offset from \<open>2^53\<close> on may differ from the double in its last digits; the page is
  empty either way, the \<^verbatim>\<open>serial\<close> key of the log table leaving it fewer than
  \<open>2^31\<close> rows.
\<close>

definition getJobLogs ::
  "(string \<Rightarrow> 'j option) \<Rightarrow> database \<Rightarrow> jwt_payload \<Rightarrow> string \<Rightarrow> query
     \<Rightarrow> app_error + ('j log_view list \<times> pagination)" where
  "getJobLogs JSON_parse db user jobIdParam q =
     (case parseIntParam jobIdParam ''jobId'' of Inl e \<Rightarrow> Inl e | Inr jobId \<Rightarrow>
      (case parsePaginationParams q of Inl e \<Rightarrow> Inl e | Inr pp \<Rightarrow>
      (case findJob db jobId of
        Inl e \<Rightarrow> Inl e
      | Inr None \<Rightarrow> Inl (NotFoundError ''Job not found'' ''NOT_FOUND'')
      | Inr (Some job) \<Rightarrow>
          if organisationId job \<noteq> jwt_organisationId user
          then Inl (ForbiddenError ''Access denied to this job'' ''FORBIDDEN'')
          else if pp_offset pp > 2 ^ 63 - 1 then Inl DatabaseError
          else
            (let totalCount = int (length (filter (\<lambda>l. log_jobId l = jobId) (jobLogs db)));
                 logs = limit_offset (pp_limit pp) (pp_offset pp)
                          (orderBy_desc log_createdAt
                             (filter (\<lambda>l. log_jobId l = jobId) (jobLogs db)))
             in case mapM (formatLog JSON_parse) logs of
                  Inl e \<Rightarrow> Inl e
                | Inr formattedLogs \<Rightarrow>
                    Inr (formattedLogs,
                         calculatePagination (pp_page pp) (pp_limit pp) totalCount)))))"

text \<open>POST /jobs/:jobId/cancel\<close>

definition cancelJob ::
  "database \<Rightarrow> jwt_payload \<Rightarrow> string \<Rightarrow> int \<Rightarrow> app_error + (database list \<times> string)" where
  "cancelJob db user jobIdParam now =
     (case requireRole [''admin'', ''editor''] user of Inl e \<Rightarrow> Inl e | Inr _ \<Rightarrow>
      (case parseIntParam jobIdParam ''jobId'' of Inl e \<Rightarrow> Inl e | Inr jobId \<Rightarrow>
      (case findJob db jobId of
        Inl e \<Rightarrow> Inl e
      | Inr None \<Rightarrow> Inl (NotFoundError ''Job not found'' ''NOT_FOUND'')
      | Inr (Some job) \<Rightarrow>
          if organisationId job \<noteq> jwt_organisationId user
          then Inl (ForbiddenError ''Access denied to this job'' ''FORBIDDEN'')
          else if status job \<notin> set [''pending'', ''processing'']
          then Inl (BadRequestError ''Only pending or processing jobs can be cancelled'' ''BAD_REQUEST'')
          else
            (let db1 = update_processingJobs db jobId
                         (\<lambda>j. j\<lparr>status := ''cancelled'', completedAt := Some now,
                                  updatedAt := now\<rparr>);
                 db2 = insert_jobLogs db1 jobId ''info'' ''Job cancelled by user'' now
             in Inr ([db1, db2], ''Job cancelled successfully'')))))"

text \<open>POST /jobs/:jobId/retry\<close>

definition retryJob ::
  "database \<Rightarrow> jwt_payload \<Rightarrow> string \<Rightarrow> int \<Rightarrow> app_error + (database list \<times> string)" where
  "retryJob db user jobIdParam now =
     (case requireRole [''admin'', ''editor''] user of Inl e \<Rightarrow> Inl e | Inr _ \<Rightarrow>
      (case parseIntParam jobIdParam ''jobId'' of Inl e \<Rightarrow> Inl e | Inr jobId \<Rightarrow>
      (case findJob db jobId of
        Inl e \<Rightarrow> Inl e
      | Inr None \<Rightarrow> Inl (NotFoundError ''Job not found'' ''NOT_FOUND'')
      | Inr (Some job) \<Rightarrow>
          if organisationId job \<noteq> jwt_organisationId user
          then Inl (ForbiddenError ''Access denied to this job'' ''FORBIDDEN'')
          else if status job \<noteq> ''failed''
          then Inl (BadRequestError ''Only failed jobs can be retried'' ''BAD_REQUEST'')
          else
            (let db1 = update_processingJobs db jobId
                         (\<lambda>j. j\<lparr>status := ''pending'', progress := 0, currentStage := None,
                                  errorMessage := None, outputRecordCount := None,
                                  piiDetectedCount := None, startedAt := None,
                                  completedAt := None, updatedAt := now\<rparr>);
                 db2 = insert_jobLogs db1 jobId ''info'' ''Job queued for retry'' now;
                 db3 = update_processingJobs db2 jobId
                         (\<lambda>j. j\<lparr>status := ''processing'', startedAt := Some now,
                                  currentStage := Some ''initializing''\<rparr>)
             in Inr ([db1, db2, db3], ''Job queued for retry'')))))"

subsection \<open>Sequences of requests\<close>

text \<open>
  A request names a route and carries what the handler reads: the token payload, the
  path parameter, the query or body, and the clock. The four GET routes only query the
  database; the database values a request writes are those of its handler, none when
  it throws. \<open>run\<close> serves the requests one at a time, each from its checks to its
  last write.
\<close>

datatype request =
    ListJobs jwt_payload string query
  | CreateJob jwt_payload string create_job_body int
  | GetJob jwt_payload string
  | GetJobProgress jwt_payload string int
  | GetJobLogs jwt_payload string query
  | CancelJob jwt_payload string int
  | RetryJob jwt_payload string int

fun writes :: "database \<Rightarrow> request \<Rightarrow> database list" where
  "writes db (CreateJob user p body now) =
     (case createJob db user p body now of Inl _ \<Rightarrow> [] | Inr (dbs, _) \<Rightarrow> dbs)"
| "writes db (CancelJob user p now) =
     (case cancelJob db user p now of Inl _ \<Rightarrow> [] | Inr (dbs, _) \<Rightarrow> dbs)"
| "writes db (RetryJob user p now) =
     (case retryJob db user p now of Inl _ \<Rightarrow> [] | Inr (dbs, _) \<Rightarrow> dbs)"
| "writes db _ = []"

fun run :: "database \<Rightarrow> request list \<Rightarrow> database list" where
  \<comment> \<open>every database value seen while the requests are served one after the other\<close>
  "run db [] = [db]"
| "run db (r # rs) = butlast (db # writes db r) @ run (last (db # writes db r)) rs"

subsection \<open>Interleaved requests\<close>

text \<open>
  Between two awaited statements of a handler the server runs the statements of other
  requests. A request that has passed its checks has its write statements ahead; it is
  held as the statement it runs next, with the values that statement uses. The checks
  of a request are taken in one step, on the database at its arrival: they pass there
  exactly when the handler above answers there.
\<close>

datatype pending =
    CreateInsert jwt_payload int schema_mapping data_source create_job_body int
  | CreateLog int int
  | CreateStart int int
  | CancelUpdate int int
  | CancelLog int int
  | RetryReset int int
  | RetryLog int int
  | RetryStart int int

fun step :: "database \<Rightarrow> pending \<Rightarrow> database \<times> pending option" where
  \<comment> \<open>one awaited write, and the statement that follows it\<close>
  "step db (CreateInsert user pid mapping dataSource body now) =
     (let (db1, job) = insert_processingJobs db
                         (createJob_values user pid mapping dataSource body now)
      in (db1, Some (CreateLog (job_id job) now)))"
| "step db (CreateLog jobId now) =
     (insert_jobLogs db jobId ''info'' ''Job created and queued for processing'' now,
      Some (CreateStart jobId now))"
| "step db (CreateStart jobId now) =
     (update_processingJobs db jobId
        (\<lambda>j. j\<lparr>status := ''processing'', startedAt := Some now,
                 currentStage := Some ''initializing''\<rparr>),
      None)"
| "step db (CancelUpdate jobId now) =
     (update_processingJobs db jobId
        (\<lambda>j. j\<lparr>status := ''cancelled'', completedAt := Some now, updatedAt := now\<rparr>),
      Some (CancelLog jobId now))"
| "step db (CancelLog jobId now) =
     (insert_jobLogs db jobId ''info'' ''Job cancelled by user'' now, None)"
| "step db (RetryReset jobId now) =
     (update_processingJobs db jobId
        (\<lambda>j. j\<lparr>status := ''pending'', progress := 0, currentStage := None,
                 errorMessage := None, outputRecordCount := None,
                 piiDetectedCount := None, startedAt := None,
                 completedAt := None, updatedAt := now\<rparr>),
      Some (RetryLog jobId now))"
| "step db (RetryLog jobId now) =
     (insert_jobLogs db jobId ''info'' ''Job queued for retry'' now,
      Some (RetryStart jobId now))"
| "step db (RetryStart jobId now) =
     (update_processingJobs db jobId
        (\<lambda>j. j\<lparr>status := ''processing'', startedAt := Some now,
                 currentStage := Some ''initializing''\<rparr>),
      None)"

fun checks :: "database \<Rightarrow> request \<Rightarrow> pending option" where
  "checks db (CreateJob user p body now) =
     (case createJob db user p body now of
        Inl _ \<Rightarrow> None
      | Inr _ \<Rightarrow>
          (case parseIntParam p ''projectId'' of
             Inl _ \<Rightarrow> None
           | Inr pid \<Rightarrow>
               (case findMapping db (body_schemaMappingId body) pid of
                  Inr (Some mapping) \<Rightarrow>
                    (case relatedDataSource db mapping of
                       None \<Rightarrow> None
                     | Some dataSource \<Rightarrow> Some (CreateInsert user pid mapping dataSource body now))
                | _ \<Rightarrow> None)))"
| "checks db (CancelJob user p now) =
     (case cancelJob db user p now of
        Inl _ \<Rightarrow> None
      | Inr _ \<Rightarrow>
          (case parseIntParam p ''jobId'' of
             Inl _ \<Rightarrow> None
           | Inr jobId \<Rightarrow> Some (CancelUpdate jobId now)))"
| "checks db (RetryJob user p now) =
     (case retryJob db user p now of
        Inl _ \<Rightarrow> None
      | Inr _ \<Rightarrow>
          (case parseIntParam p ''jobId'' of
             Inl _ \<Rightarrow> None
           | Inr jobId \<Rightarrow> Some (RetryReset jobId now)))"
| "checks db _ = None"

datatype event =
    Arrive request \<comment> \<open>a request arrives and its checks run\<close>
  | Advance nat \<comment> \<open>the request at this position among those in flight runs its next write\<close>

fun interleave :: "database \<Rightarrow> pending list \<Rightarrow> event list \<Rightarrow> database list" where
  \<comment> \<open>every database value seen under a schedule, from a database and the requests
      in flight\<close>
  "interleave db ps [] = [db]"
| "interleave db ps (Arrive r # es) =
     (case checks db r of
        None \<Rightarrow> interleave db ps es
      | Some p \<Rightarrow> interleave db (ps @ [p]) es)"
| "interleave db ps (Advance i # es) =
     (if i < length ps
      then
        (case step db (ps ! i) of
           (db', None) \<Rightarrow> db # interleave db' (take i ps @ drop (Suc i) ps) es
         | (db', Some p) \<Rightarrow> db # interleave db' (ps[i := p]) es)
      else interleave db ps es)"

subsection \<open>The lifecycle invariants\<close>

definition terminal :: "string \<Rightarrow> bool" where
  "terminal st = (st \<in> set [''completed'', ''failed'', ''cancelled''])"

definition completedAt_iff_terminal :: "processing_job \<Rightarrow> bool" where
  "completedAt_iff_terminal j = ((completedAt j \<noteq> None) = terminal (status j))"

definition ids_below_seq :: "database \<Rightarrow> bool" where
  \<comment> \<open>what the \<^verbatim>\<open>serial\<close> primary key provides: the next id of the sequence is new\<close>
  "ids_below_seq db = list_all (\<lambda>j. job_id j < processingJobs_id_seq db) (processingJobs db)"

definition consistent :: "database \<Rightarrow> bool" where
  "consistent db = (ids_below_seq db \<and> list_all completedAt_iff_terminal (processingJobs db))"

definition api_status :: "string \<Rightarrow> bool" where
  "api_status st = (st \<in> set [''pending'', ''processing'', ''cancelled''])"

subsection \<open>Sample data for the concrete checks\<close>

definition sample_user :: jwt_payload where
  "sample_user = \<lparr>jwt_userId = 1, jwt_email = ''ada@example.org'', jwt_organisationId = 1,
                   jwt_role = ''editor''\<rparr>"

definition sample_job :: processing_job where
  "sample_job =
     \<lparr>job_id = 1, organisationId = 1, projectId = 1, schemaMappingId = 1, dataSourceId = 1,
      status = ''processing'', outputFormat = ''json'', outputName = Some ''tickets-output'',
      inputRecordCount = 100, outputRecordCount = None, piiDetectedCount = None,
      progress = 50, currentStage = Some ''initializing'', errorMessage = None,
      startedAt = Some 0, completedAt = None, createdAt = 0, updatedAt = 0\<rparr>"

definition sample_failed_job :: processing_job where
  "sample_failed_job =
     sample_job\<lparr>job_id := 2, status := ''failed'', errorMessage := Some ''stage X crashed'',
                completedAt := Some 500\<rparr>"

definition sample_completed_job :: processing_job where
  "sample_completed_job =
     sample_job\<lparr>job_id := 3, status := ''completed'', progress := 100,
                outputRecordCount := Some 100, completedAt := Some 900\<rparr>"

definition sample_empty_db :: database where
  "sample_empty_db =
     \<lparr>projects = [\<lparr>project_id = 1, project_organisationId = 1, project_deletedAt = None\<rparr>],
      dataSources = [\<lparr>source_id = 1, source_name = ''tickets'', source_recordCount = Some 100,
                      source_status = ''ready'', source_deletedAt = None\<rparr>,
                     \<lparr>source_id = 2, source_name = ''archive'', source_recordCount = Some 7,
                      source_status = ''ready'', source_deletedAt = Some 50\<rparr>],
      schemaMappings = [\<lparr>mapping_id = 1, mapping_projectId = 1, mapping_dataSourceId = 1,
                         mapping_isActive = 1\<rparr>,
                        \<lparr>mapping_id = 2, mapping_projectId = 1, mapping_dataSourceId = 2,
                         mapping_isActive = 1\<rparr>],
      processingJobs = [],
      jobLogs = [],
      processingJobs_id_seq = 1,
      jobLogs_id_seq = 1\<rparr>"

definition sample_db :: database where
  "sample_db =
     sample_empty_db\<lparr>processingJobs := [sample_job, sample_failed_job, sample_completed_job],
                     processingJobs_id_seq := 4\<rparr>"

definition sample_logged_db :: database where
  "sample_logged_db =
     sample_db\<lparr>jobLogs :=
                 [\<lparr>log_id = 1, log_jobId = 1, log_level = ''info'',
                   log_message = ''Job created and queued for processing'',
                   log_details = None, log_createdAt = 100\<rparr>,
                  \<lparr>log_id = 2, log_jobId = 2, log_level = ''info'',
                   log_message = ''Job created and queued for processing'',
                   log_details = None, log_createdAt = 150\<rparr>,
                  \<lparr>log_id = 3, log_jobId = 1, log_level = ''warn'',
                   log_message = ''slow stage'', log_details = Some ''{}'',
                   log_createdAt = 300\<rparr>,
                  \<lparr>log_id = 4, log_jobId = 1, log_level = ''info'',
                   log_message = ''stage done'', log_details = None,
                   log_createdAt = 200\<rparr>],
               jobLogs_id_seq := 5\<rparr>"

definition sample_body :: create_job_body where
  "sample_body = \<lparr>body_schemaMappingId = 1, body_outputFormat = ''json'', body_outputName = None\<rparr>"

definition sample_query :: query where
  "sample_query = \<lparr>query_page = None, query_page_size = None, query_status = None\<rparr>"

section \<open>Properties\<close>

subsection \<open>Database primitives and sample facts\<close>

lemma find_map_job_id:
  assumes "\<And>j. job_id (f j) = job_id j"
  shows "find (\<lambda>j. job_id j = i) (map (\<lambda>j. if job_id j = i then f j else j) xs)
         = map_option f (find (\<lambda>j. job_id j = i) xs)"
  using assms by (induction xs) auto

lemma findJob_update_same:
  assumes "\<And>j. job_id (f j) = job_id j"
  shows "findJob (update_processingJobs db i f) i = map_sum id (map_option f) (findJob db i)"
  using find_map_job_id[OF assms] by (simp add: findJob_def update_processingJobs_def)

lemma findJob_insert_jobLogs [simp]:
  "findJob (insert_jobLogs db i l m t) k = findJob db k"
  by (simp add: findJob_def insert_jobLogs_def)

lemma jobLogs_update_processingJobs [simp]:
  "jobLogs (update_processingJobs db i f) = jobLogs db"
  "jobLogs_id_seq (update_processingJobs db i f) = jobLogs_id_seq db"
  by (simp_all add: update_processingJobs_def)

lemma sample_role: "requireRole [''admin'', ''editor''] sample_user = Inr ()"
  by (simp add: requireRole_def sample_user_def)

lemma parse_jobId_1: "parseIntParam ''1'' ''jobId'' = Inr 1"
  by code_simp

lemma parse_jobId_3: "parseIntParam ''3'' ''jobId'' = Inr 3"
  by code_simp

lemma find_sample_job: "findJob sample_db 1 = Inr (Some sample_job)"
  by code_simp

lemma find_sample_completed_job: "findJob sample_db 3 = Inr (Some sample_completed_job)"
  by code_simp

subsection \<open>Cancelling a job\<close>

text \<open>
  Claim C1. For a job the caller may act on (role admin or editor, a well-formed id, the
  job found and of the caller's organisation), cancel succeeds exactly from the statuses
  pending and processing: it then sets the status to cancelled and \<open>completedAt\<close>
  (and \<open>updatedAt\<close>) to the current time and appends the info log entry
  "Job cancelled by user". From every other status it throws the BadRequest error
  "Only pending or processing jobs can be cancelled" and writes nothing.
\<close>

theorem cancelJob_only_pending_or_processing:
  assumes "requireRole [''admin'', ''editor''] user = Inr ()"
    and "parseIntParam jobIdParam ''jobId'' = Inr jobId"
    and "findJob db jobId = Inr (Some job)"
    and "organisationId job = jwt_organisationId user"
  shows "(status job = ''pending'' \<or> status job = ''processing'' \<longrightarrow>
            (\<exists>db1 db2.
               cancelJob db user jobIdParam now = Inr ([db1, db2], ''Job cancelled successfully'')
             \<and> findJob db2 jobId =
                 Inr (Some (job\<lparr>status := ''cancelled'', completedAt := Some now, updatedAt := now\<rparr>))
             \<and> jobLogs db2 = jobLogs db @
                 [\<lparr>log_id = jobLogs_id_seq db, log_jobId = jobId, log_level = ''info'',
                   log_message = ''Job cancelled by user'', log_details = None,
                   log_createdAt = now\<rparr>]))
       \<and> (status job \<noteq> ''pending'' \<and> status job \<noteq> ''processing'' \<longrightarrow>
            cancelJob db user jobIdParam now =
              Inl (BadRequestError ''Only pending or processing jobs can be cancelled'' ''BAD_REQUEST'')
          \<and> writes db (CancelJob user jobIdParam now) = [])"
proof (intro conjI impI)
  assume ok: "status job = ''pending'' \<or> status job = ''processing''"
  let ?upd = "\<lambda>j. j\<lparr>status := ''cancelled'', completedAt := Some now, updatedAt := now\<rparr>"
  let ?db1 = "update_processingJobs db jobId ?upd"
  let ?db2 = "insert_jobLogs ?db1 jobId ''info'' ''Job cancelled by user'' now"
  have run: "cancelJob db user jobIdParam now = Inr ([?db1, ?db2], ''Job cancelled successfully'')"
    using assms ok by (auto simp: cancelJob_def Let_def)
  have job: "findJob ?db2 jobId = Inr (Some (?upd job))"
    using assms(3) by (simp add: findJob_update_same)
  have logs: "jobLogs ?db2 = jobLogs db @
                 [\<lparr>log_id = jobLogs_id_seq db, log_jobId = jobId, log_level = ''info'',
                   log_message = ''Job cancelled by user'', log_details = None,
                   log_createdAt = now\<rparr>]"
    by (simp add: insert_jobLogs_def)
  from run job logs show "\<exists>db1 db2.
               cancelJob db user jobIdParam now = Inr ([db1, db2], ''Job cancelled successfully'')
             \<and> findJob db2 jobId =
                 Inr (Some (job\<lparr>status := ''cancelled'', completedAt := Some now, updatedAt := now\<rparr>))
             \<and> jobLogs db2 = jobLogs db @
                 [\<lparr>log_id = jobLogs_id_seq db, log_jobId = jobId, log_level = ''info'',
                   log_message = ''Job cancelled by user'', log_details = None,
                   log_createdAt = now\<rparr>]"
    by blast
next
  assume no: "status job \<noteq> ''pending'' \<and> status job \<noteq> ''processing''"
  then show err: "cancelJob db user jobIdParam now =
              Inl (BadRequestError ''Only pending or processing jobs can be cancelled'' ''BAD_REQUEST'')"
    using assms by (simp add: cancelJob_def)
  then show "writes db (CancelJob user jobIdParam now) = []" by simp
qed

theorem cancelJob_only_pending_or_processing_witness:
  "requireRole [''admin'', ''editor''] sample_user = Inr ()
   \<and> parseIntParam ''1'' ''jobId'' = Inr 1
   \<and> findJob sample_db 1 = Inr (Some sample_job)
   \<and> organisationId sample_job = jwt_organisationId sample_user
   \<and> status sample_job = ''processing''
   \<and> (\<exists>db1 db2.
        cancelJob sample_db sample_user ''1'' 2000 = Inr ([db1, db2], ''Job cancelled successfully'')
      \<and> findJob db2 1 =
          Inr (Some (sample_job\<lparr>status := ''cancelled'', completedAt := Some 2000, updatedAt := 2000\<rparr>))
      \<and> map log_message (jobLogs db2) = [''Job cancelled by user''])
   \<and> findJob sample_db 3 = Inr (Some sample_completed_job)
   \<and> status sample_completed_job = ''completed''
   \<and> cancelJob sample_db sample_user ''3'' 2000 =
       Inl (BadRequestError ''Only pending or processing jobs can be cancelled'' ''BAD_REQUEST'')
   \<and> writes sample_db (CancelJob sample_user ''3'' 2000) = []"
proof -
  have org1: "organisationId sample_job = jwt_organisationId sample_user"
    by (simp add: sample_job_def sample_user_def)
  have org3: "organisationId sample_completed_job = jwt_organisationId sample_user"
    by (simp add: sample_completed_job_def sample_job_def sample_user_def)
  have st1: "status sample_job = ''processing''" by (simp add: sample_job_def)
  have st3: "status sample_completed_job = ''completed''"
    by (simp add: sample_completed_job_def)
  have logs: "jobLogs sample_db = []" by (simp add: sample_db_def sample_empty_db_def)
  note a = cancelJob_only_pending_or_processing[OF sample_role parse_jobId_1 find_sample_job org1, of 2000]
  note b = cancelJob_only_pending_or_processing[OF sample_role parse_jobId_3 find_sample_completed_job org3, of 2000]
  show ?thesis
    using a b sample_role parse_jobId_1 parse_jobId_3 find_sample_job find_sample_completed_job org1 org3 st1 st3 logs by auto
qed

lemma map_job_id_update [simp]:
  assumes "\<And>j. job_id (f j) = job_id j"
  shows "map job_id (processingJobs (update_processingJobs db i f)) = map job_id (processingJobs db)"
  using assms by (simp add: update_processingJobs_def)

lemma update_processingJobs_fields [simp]:
  "processingJobs_id_seq (update_processingJobs db i f) = processingJobs_id_seq db"
  by (simp add: update_processingJobs_def)

lemma insert_jobLogs_fields [simp]:
  "processingJobs (insert_jobLogs db i l m t) = processingJobs db"
  "processingJobs_id_seq (insert_jobLogs db i l m t) = processingJobs_id_seq db"
  by (simp_all add: insert_jobLogs_def)

subsection \<open>Retrying a job\<close>

text \<open>
  Claim C2. For a job the caller may act on, retry succeeds exactly from the status
  failed. It then works on the same row (the ids of the table and its sequence are
  unchanged, no row is added): the first write sets the status to pending, the progress
  to 0 and \<open>currentStage\<close>, \<open>errorMessage\<close>, \<open>outputRecordCount\<close>,
  \<open>piiDetectedCount\<close>, \<open>startedAt\<close> and \<open>completedAt\<close> to null; after the log
  entry "Job queued for retry" the last write sets the status to processing, with
  \<open>startedAt\<close> the current time and the stage "initializing". From every other status
  retry throws the BadRequest error "Only failed jobs can be retried" and writes nothing.
\<close>

theorem retryJob_only_failed:
  assumes "requireRole [''admin'', ''editor''] user = Inr ()"
    and "parseIntParam jobIdParam ''jobId'' = Inr jobId"
    and "findJob db jobId = Inr (Some job)"
    and "organisationId job = jwt_organisationId user"
  shows "(status job = ''failed'' \<longrightarrow>
            (\<exists>db1 db2 db3.
               retryJob db user jobIdParam now = Inr ([db1, db2, db3], ''Job queued for retry'')
             \<and> findJob db1 jobId =
                 Inr (Some (job\<lparr>status := ''pending'', progress := 0, currentStage := None,
                           errorMessage := None, outputRecordCount := None,
                           piiDetectedCount := None, startedAt := None, completedAt := None,
                           updatedAt := now\<rparr>))
             \<and> findJob db3 jobId =
                 Inr (Some (job\<lparr>status := ''processing'', progress := 0,
                           currentStage := Some ''initializing'', errorMessage := None,
                           outputRecordCount := None, piiDetectedCount := None,
                           startedAt := Some now, completedAt := None, updatedAt := now\<rparr>))
             \<and> map job_id (processingJobs db1) = map job_id (processingJobs db)
             \<and> map job_id (processingJobs db3) = map job_id (processingJobs db)
             \<and> processingJobs_id_seq db3 = processingJobs_id_seq db
             \<and> jobLogs db3 = jobLogs db @
                 [\<lparr>log_id = jobLogs_id_seq db, log_jobId = jobId, log_level = ''info'',
                   log_message = ''Job queued for retry'', log_details = None,
                   log_createdAt = now\<rparr>]))
       \<and> (status job \<noteq> ''failed'' \<longrightarrow>
            retryJob db user jobIdParam now =
              Inl (BadRequestError ''Only failed jobs can be retried'' ''BAD_REQUEST'')
          \<and> writes db (RetryJob user jobIdParam now) = [])"
proof (intro conjI impI)
  assume failed: "status job = ''failed''"
  let ?reset = "\<lambda>j. j\<lparr>status := ''pending'', progress := 0, currentStage := None,
                        errorMessage := None, outputRecordCount := None,
                        piiDetectedCount := None, startedAt := None, completedAt := None,
                        updatedAt := now\<rparr>"
  let ?start = "\<lambda>j. j\<lparr>status := ''processing'', startedAt := Some now,
                        currentStage := Some ''initializing''\<rparr>"
  let ?db1 = "update_processingJobs db jobId ?reset"
  let ?db2 = "insert_jobLogs ?db1 jobId ''info'' ''Job queued for retry'' now"
  let ?db3 = "update_processingJobs ?db2 jobId ?start"
  have run: "retryJob db user jobIdParam now = Inr ([?db1, ?db2, ?db3], ''Job queued for retry'')"
    using assms failed by (simp add: retryJob_def Let_def)
  have j1: "findJob ?db1 jobId = Inr (Some (?reset job))"
    using assms(3) by (simp add: findJob_update_same)
  have j3: "findJob ?db3 jobId =
                 Inr (Some (job\<lparr>status := ''processing'', progress := 0,
                           currentStage := Some ''initializing'', errorMessage := None,
                           outputRecordCount := None, piiDetectedCount := None,
                           startedAt := Some now, completedAt := None, updatedAt := now\<rparr>))"
  proof -
    have "findJob ?db3 jobId =
            map_sum id (map_option ?start) (map_sum id (map_option ?reset) (findJob db jobId))"
      by (simp add: findJob_update_same)
    then show ?thesis using assms(3) by simp
  qed
  have ids1: "map job_id (processingJobs ?db1) = map job_id (processingJobs db)"
    by simp
  have ids3: "map job_id (processingJobs ?db3) = map job_id (processingJobs db)"
    by simp
  have seq: "processingJobs_id_seq ?db3 = processingJobs_id_seq db"
    by simp
  have logs: "jobLogs ?db3 = jobLogs db @
                 [\<lparr>log_id = jobLogs_id_seq db, log_jobId = jobId, log_level = ''info'',
                   log_message = ''Job queued for retry'', log_details = None,
                   log_createdAt = now\<rparr>]"
    by (simp add: insert_jobLogs_def)
  show "\<exists>db1 db2 db3.
               retryJob db user jobIdParam now = Inr ([db1, db2, db3], ''Job queued for retry'')
             \<and> findJob db1 jobId =
                 Inr (Some (job\<lparr>status := ''pending'', progress := 0, currentStage := None,
                           errorMessage := None, outputRecordCount := None,
                           piiDetectedCount := None, startedAt := None, completedAt := None,
                           updatedAt := now\<rparr>))
             \<and> findJob db3 jobId =
                 Inr (Some (job\<lparr>status := ''processing'', progress := 0,
                           currentStage := Some ''initializing'', errorMessage := None,
                           outputRecordCount := None, piiDetectedCount := None,
                           startedAt := Some now, completedAt := None, updatedAt := now\<rparr>))
             \<and> map job_id (processingJobs db1) = map job_id (processingJobs db)
             \<and> map job_id (processingJobs db3) = map job_id (processingJobs db)
             \<and> processingJobs_id_seq db3 = processingJobs_id_seq db
             \<and> jobLogs db3 = jobLogs db @
                 [\<lparr>log_id = jobLogs_id_seq db, log_jobId = jobId, log_level = ''info'',
                   log_message = ''Job queued for retry'', log_details = None,
                   log_createdAt = now\<rparr>]"
    using run j1 j3 ids1 ids3 seq logs by blast
next
  assume no: "status job \<noteq> ''failed''"
  then show err: "retryJob db user jobIdParam now =
              Inl (BadRequestError ''Only failed jobs can be retried'' ''BAD_REQUEST'')"
    using assms by (simp add: retryJob_def)
  then show "writes db (RetryJob user jobIdParam now) = []" by simp
qed

lemma parse_jobId_2: "parseIntParam ''2'' ''jobId'' = Inr 2"
  by code_simp

lemma find_sample_failed_job: "findJob sample_db 2 = Inr (Some sample_failed_job)"
  by code_simp

theorem retryJob_only_failed_witness:
  "requireRole [''admin'', ''editor''] sample_user = Inr ()
   \<and> parseIntParam ''2'' ''jobId'' = Inr 2
   \<and> findJob sample_db 2 = Inr (Some sample_failed_job)
   \<and> organisationId sample_failed_job = jwt_organisationId sample_user
   \<and> status sample_failed_job = ''failed''
   \<and> errorMessage sample_failed_job = Some ''stage X crashed''
   \<and> (\<exists>db1 db2 db3.
        retryJob sample_db sample_user ''2'' 3000 = Inr ([db1, db2, db3], ''Job queued for retry'')
      \<and> map_sum id (map_option status) (findJob db1 2) = Inr (Some ''pending'')
      \<and> map_sum id (map_option status) (findJob db3 2) = Inr (Some ''processing'')
      \<and> map_sum id (map_option errorMessage) (findJob db3 2) = Inr (Some None)
      \<and> map_sum id (map_option progress) (findJob db3 2) = Inr (Some 0)
      \<and> map job_id (processingJobs db3) = [1, 2, 3])
   \<and> findJob sample_db 1 = Inr (Some sample_job)
   \<and> status sample_job = ''processing''
   \<and> retryJob sample_db sample_user ''1'' 3000 =
       Inl (BadRequestError ''Only failed jobs can be retried'' ''BAD_REQUEST'')
   \<and> writes sample_db (RetryJob sample_user ''1'' 3000) = []"
proof -
  have org1: "organisationId sample_job = jwt_organisationId sample_user"
    by (simp add: sample_job_def sample_user_def)
  have org2: "organisationId sample_failed_job = jwt_organisationId sample_user"
    by (simp add: sample_failed_job_def sample_job_def sample_user_def)
  have st1: "status sample_job = ''processing''" by (simp add: sample_job_def)
  have st2: "status sample_failed_job = ''failed''"
    "errorMessage sample_failed_job = Some ''stage X crashed''"
    by (simp_all add: sample_failed_job_def)
  have ids: "map job_id (processingJobs sample_db) = [1, 2, 3]"
    by (simp add: sample_db_def sample_job_def sample_failed_job_def sample_completed_job_def)
  note a = retryJob_only_failed[OF sample_role parse_jobId_2 find_sample_failed_job org2, of 3000]
  note b = retryJob_only_failed[OF sample_role parse_jobId_1 find_sample_job org1, of 3000]
  show ?thesis
    using a b sample_role parse_jobId_1 parse_jobId_2 find_sample_job find_sample_failed_job org1 org2 st1 st2 ids by auto
qed

subsection \<open>Creating a job\<close>

lemma map_update_fresh:
  "list_all (\<lambda>j. job_id j < i) xs \<Longrightarrow> map (\<lambda>j. if job_id j = i then f j else j) xs = xs"
  by (induction xs) auto

lemma createJob_success:
  assumes "requireRole [''admin'', ''editor''] user = Inr ()"
    and "validateBody_createJobSchema body = Inr ()"
    and "parseIntParam projectIdParam ''projectId'' = Inr pid"
    and "verifyProjectAccess db pid (jwt_organisationId user) = Inr prj"
    and "findMapping db (body_schemaMappingId body) pid = Inr (Some m)"
    and "mapping_isActive m = 1"
    and "relatedDataSource db m = Some s"
    and "source_status s = ''ready''"
  shows "\<exists>db1 db2 db3 resp.
           createJob db user projectIdParam body now = Inr ([db1, db2, db3], resp)
         \<and> db1 = fst (insert_processingJobs db (createJob_values user pid m s body now))
         \<and> db2 = insert_jobLogs db1 (processingJobs_id_seq db) ''info''
                    ''Job created and queued for processing'' now
         \<and> db3 = update_processingJobs db2 (processingJobs_id_seq db)
                    (\<lambda>j. j\<lparr>status := ''processing'', startedAt := Some now,
                             currentStage := Some ''initializing''\<rparr>)
         \<and> cj_id resp = processingJobs_id_seq db
         \<and> cj_status resp = ''processing''
         \<and> cj_progress resp = 0
         \<and> cj_currentStage resp = ''initializing''"
  using assms
  by (simp add: createJob_def insert_processingJobs_def Let_def createJob_values_def)

lemma createJob_InrD:
  assumes "createJob db user projectIdParam body now = Inr r"
  shows "\<exists>pid prj m s.
           requireRole [''admin'', ''editor''] user = Inr ()
         \<and> validateBody_createJobSchema body = Inr ()
         \<and> parseIntParam projectIdParam ''projectId'' = Inr pid
         \<and> verifyProjectAccess db pid (jwt_organisationId user) = Inr prj
         \<and> findMapping db (body_schemaMappingId body) pid = Inr (Some m)
         \<and> mapping_isActive m = 1
         \<and> relatedDataSource db m = Some s
         \<and> source_status s = ''ready''"
  using assms
  by (auto simp: createJob_def split: sum.splits option.splits if_splits)

lemma sample_create_facts:
  "validateBody_createJobSchema sample_body = Inr ()"
  "parseIntParam ''1'' ''projectId'' = Inr 1"
  "verifyProjectAccess sample_empty_db 1 (jwt_organisationId sample_user) =
     Inr \<lparr>project_id = 1, project_organisationId = 1, project_deletedAt = None\<rparr>"
  "findMapping sample_empty_db (body_schemaMappingId sample_body) 1 =
     Inr (Some \<lparr>mapping_id = 1, mapping_projectId = 1, mapping_dataSourceId = 1,
                mapping_isActive = 1\<rparr>)"
  "relatedDataSource sample_empty_db
     \<lparr>mapping_id = 1, mapping_projectId = 1, mapping_dataSourceId = 1, mapping_isActive = 1\<rparr> =
     Some \<lparr>source_id = 1, source_name = ''tickets'', source_recordCount = Some 100,
           source_status = ''ready'', source_deletedAt = None\<rparr>"
  by code_simp+




lemma createJob_out_of_range_sample:
  "createJob sample_empty_db sample_user ''1''
     (sample_body\<lparr>body_schemaMappingId := 2147483648\<rparr>) 1000 = Inl DatabaseError"
  "createJob sample_empty_db sample_user ''2147483648'' sample_body 1000 = Inl DatabaseError"
  by code_simp+

text \<open>
  Claim C4, as the handler has it. A successful create performs three writes. The first
  inserts the job with status pending, progress 0 and no \<open>startedAt\<close>, stage or
  \<open>completedAt\<close>; the second appends the one log entry "Job created and queued for
  processing"; the third sets status processing, \<open>startedAt\<close> to the current time and
  the stage to "initializing", and appends no log entry. The response reports status
  processing, progress 0 and stage "initializing".
\<close>

theorem createJob_pending_then_processing:
  assumes "createJob db user projectIdParam body now = Inr (dbs, resp)"
    and "ids_below_seq db"
  shows "\<exists>db1 db2 db3 job.
           dbs = [db1, db2, db3]
         \<and> processingJobs db1 = processingJobs db @ [job]
         \<and> job_id job = processingJobs_id_seq db
         \<and> status job = ''pending'' \<and> progress job = 0
         \<and> startedAt job = None \<and> currentStage job = None \<and> completedAt job = None
         \<and> jobLogs db1 = jobLogs db
         \<and> processingJobs db2 = processingJobs db1
         \<and> jobLogs db2 = jobLogs db @
              [\<lparr>log_id = jobLogs_id_seq db, log_jobId = job_id job, log_level = ''info'',
                log_message = ''Job created and queued for processing'', log_details = None,
                log_createdAt = now\<rparr>]
         \<and> processingJobs db3 = processingJobs db @
              [job\<lparr>status := ''processing'', startedAt := Some now,
                   currentStage := Some ''initializing''\<rparr>]
         \<and> jobLogs db3 = jobLogs db2
         \<and> cj_id resp = job_id job \<and> cj_status resp = ''processing''
         \<and> cj_progress resp = 0 \<and> cj_currentStage resp = ''initializing''"
proof -
  from createJob_InrD[OF assms(1)] obtain pid prj m s where
    pre: "requireRole [''admin'', ''editor''] user = Inr ()"
         "validateBody_createJobSchema body = Inr ()"
         "parseIntParam projectIdParam ''projectId'' = Inr pid"
         "verifyProjectAccess db pid (jwt_organisationId user) = Inr prj"
         "findMapping db (body_schemaMappingId body) pid = Inr (Some m)"
         "mapping_isActive m = 1"
         "relatedDataSource db m = Some s"
         "source_status s = ''ready''"
    by blast
  let ?job = "createJob_values user pid m s body now (processingJobs_id_seq db)"
  from createJob_success[OF pre, where now = now] assms(1)
  obtain db1 db2 db3 where
    r: "dbs = [db1, db2, db3]"
    and d1: "db1 = fst (insert_processingJobs db (createJob_values user pid m s body now))"
    and d2: "db2 = insert_jobLogs db1 (processingJobs_id_seq db) ''info''
                    ''Job created and queued for processing'' now"
    and d3: "db3 = update_processingJobs db2 (processingJobs_id_seq db)
                    (\<lambda>j. j\<lparr>status := ''processing'', startedAt := Some now,
                             currentStage := Some ''initializing''\<rparr>)"
    and resp: "cj_id resp = processingJobs_id_seq db" "cj_status resp = ''processing''"
              "cj_progress resp = 0" "cj_currentStage resp = ''initializing''"
    by auto
  have fresh: "list_all (\<lambda>j. job_id j < processingJobs_id_seq db) (processingJobs db)"
    using assms(2) by (simp add: ids_below_seq_def)
  have j1: "processingJobs db1 = processingJobs db @ [?job]"
    and l1: "jobLogs db1 = jobLogs db" and s1: "jobLogs_id_seq db1 = jobLogs_id_seq db"
    by (simp_all add: d1 insert_processingJobs_def Let_def)
  have jf: "job_id ?job = processingJobs_id_seq db" "status ?job = ''pending''"
    "progress ?job = 0" "startedAt ?job = None" "currentStage ?job = None"
    "completedAt ?job = None"
    by (simp_all add: createJob_values_def)
  have j2: "processingJobs db2 = processingJobs db1" by (simp add: d2)
  have l2: "jobLogs db2 = jobLogs db @
              [\<lparr>log_id = jobLogs_id_seq db, log_jobId = job_id ?job, log_level = ''info'',
                log_message = ''Job created and queued for processing'', log_details = None,
                log_createdAt = now\<rparr>]"
    by (simp add: d2 insert_jobLogs_def l1 s1 jf(1))
  have j3: "processingJobs db3 = processingJobs db @
              [?job\<lparr>status := ''processing'', startedAt := Some now,
                   currentStage := Some ''initializing''\<rparr>]"
    using map_update_fresh[OF fresh]
    by (simp add: d3 update_processingJobs_def j2 j1 jf(1))
  have l3: "jobLogs db3 = jobLogs db2" by (simp add: d3)
  show ?thesis
    by (rule exI[of _ db1], rule exI[of _ db2], rule exI[of _ db3], rule exI[of _ ?job])
       (simp add: r j1 jf l1 j2 l2 j3 l3 resp)
qed

theorem createJob_pending_then_processing_witness:
  "ids_below_seq sample_empty_db
   \<and> (\<exists>dbs resp db1 db2 db3 job.
         createJob sample_empty_db sample_user ''1'' sample_body 1000 = Inr (dbs, resp)
       \<and> dbs = [db1, db2, db3]
       \<and> processingJobs db1 = [job] \<and> status job = ''pending'' \<and> progress job = 0
       \<and> map log_message (jobLogs db2) = [''Job created and queued for processing'']
       \<and> processingJobs db3 =
            [job\<lparr>status := ''processing'', startedAt := Some 1000,
                 currentStage := Some ''initializing''\<rparr>]
       \<and> jobLogs db3 = jobLogs db2
       \<and> cj_status resp = ''processing'')"
proof -
  have ok: "ids_below_seq sample_empty_db"
    by (simp add: ids_below_seq_def sample_empty_db_def)
  have e: "processingJobs sample_empty_db = []" "jobLogs sample_empty_db = []"
    by (simp_all add: sample_empty_db_def)
  from createJob_success[OF sample_role sample_create_facts(1,2,3,4) _ sample_create_facts(5), where now = 1000]
  obtain dbs resp where
    r: "createJob sample_empty_db sample_user ''1'' sample_body 1000 = Inr (dbs, resp)"
    by auto
  from createJob_pending_then_processing[OF r ok] e r ok show ?thesis
    by auto
qed

text \<open>
  The claim as stated expects two log entries, "queued" then "started". After a create on
  the empty sample database the job is processing and the log holds a single entry.
\<close>

theorem createJob_single_log_counterexample:
  "map log_message
     (jobLogs (last (writes sample_empty_db (CreateJob sample_user ''1'' sample_body 1000)))) =
     [''Job created and queued for processing'']
   \<and> map status
     (processingJobs (last (writes sample_empty_db (CreateJob sample_user ''1'' sample_body 1000)))) =
     [''processing'']"
  by code_simp

subsection \<open>The progress snapshot\<close>

lemma Math_round_percent: "Math_round (of_int a / 100) = (a + 50) div 100"
proof -
  have "(of_int a :: rat) / 100 + 1 / 2 = of_int (a + 50) / of_int 100"
    by (simp add: field_simps)
  then have "Math_round (of_int a / 100) = \<lfloor>(of_int (a + 50) :: rat) / of_int 100\<rfloor>"
    by (simp only: Math_round_def)
  then show ?thesis
    by (simp only: floor_divide_of_int_eq)
qed

lemma getJobProgress_InrD:
  assumes "getJobProgress db user jobIdParam now = Inr snap"
  shows "\<exists>jobId job.
           parseIntParam jobIdParam ''jobId'' = Inr jobId
         \<and> findJob db jobId = Inr (Some job)
         \<and> organisationId job = jwt_organisationId user
         \<and> snap =
             \<lparr>ps_jobId = job_id job, ps_status = status job, ps_currentStage = currentStage job,
              ps_overallProgress = progress job,
              ps_processedRecords = Math_round (of_int (inputRecordCount job * progress job) / 100),
              ps_totalRecords = inputRecordCount job,
              ps_estimatedTimeRemaining = estimateTimeRemaining job now,
              ps_piiDetectedCount = piiDetectedCount job\<rparr>"
  using assms
  by (auto simp: getJobProgress_def split: sum.splits option.splits if_splits)

lemma getJobProgress_found:
  assumes "parseIntParam jobIdParam ''jobId'' = Inr jobId"
    and "findJob db jobId = Inr (Some job)"
    and "organisationId job = jwt_organisationId user"
  shows "getJobProgress db user jobIdParam now = Inr
             \<lparr>ps_jobId = job_id job, ps_status = status job, ps_currentStage = currentStage job,
              ps_overallProgress = progress job,
              ps_processedRecords = Math_round (of_int (inputRecordCount job * progress job) / 100),
              ps_totalRecords = inputRecordCount job,
              ps_estimatedTimeRemaining = estimateTimeRemaining job now,
              ps_piiDetectedCount = piiDetectedCount job\<rparr>"
  using assms by (simp add: getJobProgress_def)

lemma sample_job_fields:
  "organisationId sample_job = jwt_organisationId sample_user"
  "status sample_job = ''processing''"
  "progress sample_job = 50"
  "inputRecordCount sample_job = 100"
  "startedAt sample_job = Some 0"
  by (simp_all add: sample_job_def sample_user_def)

lemma eta_formula:
  assumes "(p::int) > 0"
  shows "((of_int e / of_int p) * (100::rat) - of_int e) / 1000
         = (of_int e / (of_int p / 100) - of_int e) / 1000"
  using assms by (simp add: field_simps)

lemma eta_mono:
  assumes "0 < (p::int)" "p \<le> 100" "e1 \<le> e2"
  shows "max 0 (Math_round (((of_int e1 / of_int p) * (100::rat) - of_int e1) / 1000))
       \<le> max 0 (Math_round (((of_int e2 / of_int p) * (100::rat) - of_int e2) / 1000))"
proof -
  define c :: rat where "c = (100 / of_int p - 1) / 1000"
  have c: "0 \<le> c" using assms(1,2) by (simp add: c_def)
  have f: "\<And>e::int. ((of_int e / of_int p) * (100::rat) - of_int e) / 1000 = of_int e * c"
    using assms(1) by (simp add: c_def field_simps)
  have "(of_int e1 :: rat) * c \<le> of_int e2 * c"
    using assms(3) c by (simp add: mult_right_mono)
  then have "Math_round (of_int e1 * c) \<le> Math_round (of_int e2 * c)"
    unfolding Math_round_def by (intro floor_mono) simp
  then show ?thesis unfolding f by linarith
qed

text \<open>
  Claim C6. Whenever the progress endpoint answers, \<open>processedRecords\<close> is
  \<^verbatim>\<open>Math.round(inputRecordCount * progress / 100)\<close> of the job's row, that is
  \<open>(inputRecordCount * progress + 50) div 100\<close>; the sample job with 100 input records at
  50 percent reports 50 processed records.
\<close>

theorem getJobProgress_processedRecords:
  assumes "getJobProgress db user jobIdParam now = Inr snap"
  shows "\<exists>jobId job.
           parseIntParam jobIdParam ''jobId'' = Inr jobId
         \<and> findJob db jobId = Inr (Some job)
         \<and> ps_totalRecords snap = inputRecordCount job
         \<and> ps_overallProgress snap = progress job
         \<and> ps_processedRecords snap =
             Math_round (of_int (inputRecordCount job * progress job) / 100)
         \<and> ps_processedRecords snap = (inputRecordCount job * progress job + 50) div 100"
proof -
  from getJobProgress_InrD[OF assms] obtain jobId job where
    h: "parseIntParam jobIdParam ''jobId'' = Inr jobId" "findJob db jobId = Inr (Some job)"
    and s: "snap =
             \<lparr>ps_jobId = job_id job, ps_status = status job, ps_currentStage = currentStage job,
              ps_overallProgress = progress job,
              ps_processedRecords = Math_round (of_int (inputRecordCount job * progress job) / 100),
              ps_totalRecords = inputRecordCount job,
              ps_estimatedTimeRemaining = estimateTimeRemaining job now,
              ps_piiDetectedCount = piiDetectedCount job\<rparr>"
    by blast
  have "ps_processedRecords snap = (inputRecordCount job * progress job + 50) div 100"
    using Math_round_percent[of "inputRecordCount job * progress job"] by (simp add: s)
  with h s show ?thesis by auto
qed

theorem getJobProgress_processedRecords_witness:
  "\<exists>snap. getJobProgress sample_db sample_user ''1'' 1000 = Inr snap
     \<and> ps_totalRecords snap = 100 \<and> ps_overallProgress snap = 50
     \<and> ps_processedRecords snap = 50"
proof -
  from getJobProgress_found[OF parse_jobId_1 find_sample_job sample_job_fields(1), of 1000]
  obtain snap where r: "getJobProgress sample_db sample_user ''1'' 1000 = Inr snap"
    by blast
  from getJobProgress_processedRecords[OF r] parse_jobId_1 find_sample_job sample_job_fields r
  show ?thesis by auto
qed

text \<open>
  Claim C5, as the handler has it. With \<open>elapsed = now - startedAt\<close> in milliseconds and
  \<open>estimatedTotal = elapsed / (progress / 100)\<close>, the endpoint reports the remaining time in
  whole seconds, \<open>max 0 (round ((estimatedTotal - elapsed) / 1000))\<close>; it reports null
  exactly when the status is not processing, or the progress is not positive, or
  \<open>startedAt\<close> is null.
\<close>

theorem getJobProgress_estimatedTimeRemaining:
  assumes "getJobProgress db user jobIdParam now = Inr snap"
  shows "\<exists>jobId job.
           parseIntParam jobIdParam ''jobId'' = Inr jobId
         \<and> findJob db jobId = Inr (Some job)
         \<and> ps_estimatedTimeRemaining snap =
             (if status job \<noteq> ''processing'' \<or> progress job \<le> 0 \<or> startedAt job = None
              then None
              else Some (max 0 (Math_round
                     ((of_int (now - the (startedAt job)) / (of_int (progress job) / 100)
                        - of_int (now - the (startedAt job))) / 1000))))"
proof -
  from getJobProgress_InrD[OF assms] obtain jobId job where
    h: "parseIntParam jobIdParam ''jobId'' = Inr jobId" "findJob db jobId = Inr (Some job)"
    and s: "ps_estimatedTimeRemaining snap = estimateTimeRemaining job now"
    by force
  have "estimateTimeRemaining job now =
             (if status job \<noteq> ''processing'' \<or> progress job \<le> 0 \<or> startedAt job = None
              then None
              else Some (max 0 (Math_round
                     ((of_int (now - the (startedAt job)) / (of_int (progress job) / 100)
                        - of_int (now - the (startedAt job))) / 1000))))"
  proof (cases "status job \<noteq> ''processing'' \<or> progress job \<le> 0 \<or> startedAt job = None")
    case True
    then show ?thesis by (auto simp: estimateTimeRemaining_def)
  next
    case False
    then have p: "progress job > 0" by simp
    have "estimateTimeRemaining job now =
            Some (max 0 (Math_round
                     ((of_int (now - the (startedAt job)) / of_int (progress job) * 100
                        - of_int (now - the (startedAt job))) / 1000)))"
      using False by (simp add: estimateTimeRemaining_def Let_def)
    also have "\<dots> = Some (max 0 (Math_round
                     ((of_int (now - the (startedAt job)) / (of_int (progress job) / 100)
                        - of_int (now - the (startedAt job))) / 1000)))"
      by (simp only: eta_formula[OF p])
    finally show ?thesis using False by simp
  qed
  with h s show ?thesis by auto
qed

theorem getJobProgress_estimatedTimeRemaining_witness:
  "\<exists>snap. getJobProgress sample_db sample_user ''1'' 1000 = Inr snap
     \<and> status sample_job = ''processing'' \<and> progress sample_job = 50
     \<and> startedAt sample_job = Some 0
     \<and> ps_estimatedTimeRemaining snap = Some 1"
proof -
  from getJobProgress_found[OF parse_jobId_1 find_sample_job sample_job_fields(1), of 1000]
  obtain snap where r: "getJobProgress sample_db sample_user ''1'' 1000 = Inr snap"
    by blast
  have v: "max 0 (Math_round (((1000::rat) / (50 / 100) - 1000) / 1000)) = 1"
    by code_simp
  from getJobProgress_estimatedTimeRemaining[OF r] parse_jobId_1 find_sample_job sample_job_fields r v
  show ?thesis by auto
qed

text \<open>
  The claim as stated has no division by 1000 and no rounding, and names only a zero
  progress and a status other than processing as the null cases. The sample job
  (processing, 50 percent, started at 0) polled at 1000 ms reports 1 where the stated
  formula gives 1000; without \<open>startedAt\<close>, or with a negative progress, it reports null.
\<close>

theorem estimatedTimeRemaining_counterexample:
  "map_sum id ps_estimatedTimeRemaining (getJobProgress sample_db sample_user ''1'' 1000) =
     Inr (Some 1)
   \<and> max 0 ((1000 :: rat) / (50 / 100) - 1000) = 1000
   \<and> estimateTimeRemaining (sample_job\<lparr>startedAt := None\<rparr>) 1000 = None
   \<and> estimateTimeRemaining (sample_job\<lparr>progress := - 1\<rparr>) 1000 = None"
  by code_simp

text \<open>
  Claim C8, as the handler has it. For a processing job with a start time and a constant
  progress between 1 and 100, two polls at times \<open>t1 < t2\<close> answer with snapshots that are
  equal in every field but \<open>estimatedTimeRemaining\<close>, and the later estimate is greater
  than or equal to the earlier one: under constant progress the linear extrapolation
  grows with the elapsed time.
\<close>

theorem getJobProgress_repeated:
  assumes "parseIntParam jobIdParam ''jobId'' = Inr jobId"
    and "findJob db jobId = Inr (Some job)"
    and "organisationId job = jwt_organisationId user"
    and "status job = ''processing''"
    and "0 < progress job" and "progress job \<le> 100"
    and "startedAt job = Some t0"
    and "t1 < t2"
  shows "\<exists>s1 s2 r1 r2.
           getJobProgress db user jobIdParam t1 = Inr s1
         \<and> getJobProgress db user jobIdParam t2 = Inr s2
         \<and> s2 = s1\<lparr>ps_estimatedTimeRemaining := Some r2\<rparr>
         \<and> ps_estimatedTimeRemaining s1 = Some r1
         \<and> r1 \<le> r2"
proof -
  let ?r = "\<lambda>t. max 0 (Math_round (((of_int (t - t0) / of_int (progress job)) * (100::rat)
                                     - of_int (t - t0)) / 1000))"
  have e: "\<And>t. estimateTimeRemaining job t = Some (?r t)"
    using assms(4,5,7) by (simp add: estimateTimeRemaining_def Let_def)
  have m: "?r t1 \<le> ?r t2"
    using assms(5,6,8) by (intro eta_mono) simp_all
  note g1 = getJobProgress_found[OF assms(1,2,3), of t1]
  note g2 = getJobProgress_found[OF assms(1,2,3), of t2]
  show ?thesis
    apply (rule exI[of _ "\<lparr>ps_jobId = job_id job, ps_status = status job, ps_currentStage = currentStage job,
              ps_overallProgress = progress job,
              ps_processedRecords = Math_round (of_int (inputRecordCount job * progress job) / 100),
              ps_totalRecords = inputRecordCount job,
              ps_estimatedTimeRemaining = estimateTimeRemaining job t1,
              ps_piiDetectedCount = piiDetectedCount job\<rparr>"])
    apply (rule exI[of _ "\<lparr>ps_jobId = job_id job, ps_status = status job, ps_currentStage = currentStage job,
              ps_overallProgress = progress job,
              ps_processedRecords = Math_round (of_int (inputRecordCount job * progress job) / 100),
              ps_totalRecords = inputRecordCount job,
              ps_estimatedTimeRemaining = estimateTimeRemaining job t2,
              ps_piiDetectedCount = piiDetectedCount job\<rparr>"])
    apply (rule exI[of _ "?r t1"], rule exI[of _ "?r t2"])
    using g1 g2 e m by simp
qed

theorem getJobProgress_repeated_witness:
  "parseIntParam ''1'' ''jobId'' = Inr 1
   \<and> findJob sample_db 1 = Inr (Some sample_job)
   \<and> organisationId sample_job = jwt_organisationId sample_user
   \<and> status sample_job = ''processing''
   \<and> 0 < progress sample_job \<and> progress sample_job \<le> 100
   \<and> startedAt sample_job = Some 0
   \<and> (1000 :: int) < 3000
   \<and> (\<exists>s1 s2 r1 r2.
         getJobProgress sample_db sample_user ''1'' 1000 = Inr s1
       \<and> getJobProgress sample_db sample_user ''1'' 3000 = Inr s2
       \<and> s2 = s1\<lparr>ps_estimatedTimeRemaining := Some r2\<rparr>
       \<and> ps_estimatedTimeRemaining s1 = Some r1
       \<and> r1 \<le> r2)"
proof -
  have p: "0 < progress sample_job" "progress sample_job \<le> 100"
    by (simp_all add: sample_job_fields)
  have t: "(1000 :: int) < 3000" by simp
  from getJobProgress_repeated[OF parse_jobId_1 find_sample_job sample_job_fields(1,2) p sample_job_fields(5) t]
    parse_jobId_1 find_sample_job sample_job_fields p
  show ?thesis by simp
qed

text \<open>
  The claim as stated has the estimate shrink. The sample job polled at 1000 ms and at
  3000 ms reports 1 and then 3 seconds.
\<close>

theorem getJobProgress_repeated_counterexample:
  "map_sum id ps_estimatedTimeRemaining (getJobProgress sample_db sample_user ''1'' 1000) =
     Inr (Some 1)
   \<and> map_sum id ps_estimatedTimeRemaining (getJobProgress sample_db sample_user ''1'' 3000) =
     Inr (Some 3)
   \<and> \<not> ((3 :: int) \<le> 1)"
  by code_simp

subsection \<open>Invariants of the job table\<close>

lemma run_invariant:
  assumes step: "\<And>db r d. P db \<Longrightarrow> d \<in> set (writes db r) \<Longrightarrow> P d"
    and "P db" and "d \<in> set (run db rs)"
  shows "P d"
  using assms(2,3)
proof (induction rs arbitrary: db)
  case Nil
  then show ?case by simp
next
  case (Cons r rs)
  have all: "\<And>x. x \<in> set (db # writes db r) \<Longrightarrow> P x"
    using step[OF Cons.prems(1)] Cons.prems(1) by auto
  have lst: "P (last (db # writes db r))"
    by (rule all) (rule last_in_set, simp)
  from Cons.prems(2) consider
    "d \<in> set (butlast (db # writes db r))" | "d \<in> set (run (last (db # writes db r)) rs)"
    by auto
  then show ?case
  proof cases
    case 1
    then show ?thesis using all in_set_butlastD by metis
  next
    case 2
    then show ?thesis using Cons.IH[OF lst] by blast
  qed
qed

lemma cancelJob_InrD:
  assumes "cancelJob db user p now = Inr (dbs, msg)"
  shows "\<exists>jobId db1.
           db1 = update_processingJobs db jobId
                   (\<lambda>j. j\<lparr>status := ''cancelled'', completedAt := Some now, updatedAt := now\<rparr>)
         \<and> dbs = [db1, insert_jobLogs db1 jobId ''info'' ''Job cancelled by user'' now]"
  using assms
  by (auto simp: cancelJob_def Let_def split: sum.splits option.splits if_splits)

lemma retryJob_InrD:
  assumes "retryJob db user p now = Inr (dbs, msg)"
  shows "\<exists>jobId db1 db2.
           db1 = update_processingJobs db jobId
                   (\<lambda>j. j\<lparr>status := ''pending'', progress := 0, currentStage := None,
                            errorMessage := None, outputRecordCount := None,
                            piiDetectedCount := None, startedAt := None,
                            completedAt := None, updatedAt := now\<rparr>)
         \<and> db2 = insert_jobLogs db1 jobId ''info'' ''Job queued for retry'' now
         \<and> dbs = [db1, db2,
                   update_processingJobs db2 jobId
                     (\<lambda>j. j\<lparr>status := ''processing'', startedAt := Some now,
                              currentStage := Some ''initializing''\<rparr>)]"
  using assms
  by (auto simp: retryJob_def Let_def split: sum.splits option.splits if_splits)

lemma createJob_trace:
  assumes "createJob db user p body now = Inr (dbs, resp)"
  shows "\<exists>pid m s db1 db2.
           db1 = fst (insert_processingJobs db (createJob_values user pid m s body now))
         \<and> db2 = insert_jobLogs db1 (processingJobs_id_seq db) ''info''
                    ''Job created and queued for processing'' now
         \<and> dbs = [db1, db2,
                   update_processingJobs db2 (processingJobs_id_seq db)
                     (\<lambda>j. j\<lparr>status := ''processing'', startedAt := Some now,
                              currentStage := Some ''initializing''\<rparr>)]"
proof -
  from createJob_InrD[OF assms] obtain pid prj m s where
    pre: "requireRole [''admin'', ''editor''] user = Inr ()"
         "validateBody_createJobSchema body = Inr ()"
         "parseIntParam p ''projectId'' = Inr pid"
         "verifyProjectAccess db pid (jwt_organisationId user) = Inr prj"
         "findMapping db (body_schemaMappingId body) pid = Inr (Some m)"
         "mapping_isActive m = 1"
         "relatedDataSource db m = Some s"
         "source_status s = ''ready''"
    by blast
  from createJob_success[OF pre, where now = now] assms show ?thesis by auto
qed

lemma consistent_insert_jobLogs [simp]:
  "consistent (insert_jobLogs db i l m t) = consistent db"
  by (simp add: consistent_def ids_below_seq_def)

lemma consistent_update:
  assumes "consistent db"
    and "\<And>j. job_id (f j) = job_id j"
    and "\<And>j. j \<in> set (processingJobs db) \<Longrightarrow> job_id j = i \<Longrightarrow> completedAt_iff_terminal (f j)"
  shows "consistent (update_processingJobs db i f)"
  using assms
  by (auto simp: consistent_def ids_below_seq_def update_processingJobs_def list_all_iff)

lemma consistent_insert_processingJobs:
  assumes "consistent db"
    and "job_id (vals (processingJobs_id_seq db)) = processingJobs_id_seq db"
    and "completedAt_iff_terminal (vals (processingJobs_id_seq db))"
  shows "consistent (fst (insert_processingJobs db vals))"
  using assms
  by (auto simp: consistent_def ids_below_seq_def insert_processingJobs_def Let_def list_all_iff)

lemma writes_consistent:
  assumes "consistent db" and "d \<in> set (writes db r)"
  shows "consistent d"
proof (cases r)
  case (CreateJob user p body now)
  with assms(2) obtain dbs resp where
    r: "createJob db user p body now = Inr (dbs, resp)" and d: "d \<in> set dbs"
    by (cases "createJob db user p body now") auto
  from createJob_trace[OF r] obtain pid m s db1 db2 where
    d1: "db1 = fst (insert_processingJobs db (createJob_values user pid m s body now))"
    and d2: "db2 = insert_jobLogs db1 (processingJobs_id_seq db) ''info''
                    ''Job created and queued for processing'' now"
    and dbs: "dbs = [db1, db2,
                   update_processingJobs db2 (processingJobs_id_seq db)
                     (\<lambda>j. j\<lparr>status := ''processing'', startedAt := Some now,
                              currentStage := Some ''initializing''\<rparr>)]"
    by blast
  have c1: "consistent db1"
    unfolding d1 using assms(1)
    by (intro consistent_insert_processingJobs)
       (simp_all add: createJob_values_def completedAt_iff_terminal_def terminal_def)
  have c2: "consistent db2" using c1 by (simp add: d2)
  have rows: "processingJobs db2 =
                processingJobs db @ [createJob_values user pid m s body now (processingJobs_id_seq db)]"
    by (simp add: d2 d1 insert_processingJobs_def Let_def)
  have old: "\<And>j. j \<in> set (processingJobs db) \<Longrightarrow> job_id j < processingJobs_id_seq db"
    using assms(1) by (simp add: consistent_def ids_below_seq_def list_all_iff)
  have c3: "consistent (update_processingJobs db2 (processingJobs_id_seq db)
                     (\<lambda>j. j\<lparr>status := ''processing'', startedAt := Some now,
                              currentStage := Some ''initializing''\<rparr>))"
  proof (rule consistent_update[OF c2])
    fix j assume "j \<in> set (processingJobs db2)" "job_id j = processingJobs_id_seq db"
    then have "j = createJob_values user pid m s body now (processingJobs_id_seq db)"
      using old by (fastforce simp: rows)
    then show "completedAt_iff_terminal
                 (j\<lparr>status := ''processing'', startedAt := Some now,
                    currentStage := Some ''initializing''\<rparr>)"
      by (simp add: createJob_values_def completedAt_iff_terminal_def terminal_def)
  qed simp
  from d dbs c1 c2 c3 show ?thesis by auto
next
  case (CancelJob user p now)
  with assms(2) obtain dbs msg where
    r: "cancelJob db user p now = Inr (dbs, msg)" and d: "d \<in> set dbs"
    by (cases "cancelJob db user p now") auto
  from cancelJob_InrD[OF r] obtain jobId db1 where
    d1: "db1 = update_processingJobs db jobId
                   (\<lambda>j. j\<lparr>status := ''cancelled'', completedAt := Some now, updatedAt := now\<rparr>)"
    and dbs: "dbs = [db1, insert_jobLogs db1 jobId ''info'' ''Job cancelled by user'' now]"
    by blast
  have c1: "consistent db1"
    unfolding d1 using assms(1)
    by (intro consistent_update) (simp_all add: completedAt_iff_terminal_def terminal_def)
  from d dbs c1 show ?thesis by auto
next
  case (RetryJob user p now)
  with assms(2) obtain dbs msg where
    r: "retryJob db user p now = Inr (dbs, msg)" and d: "d \<in> set dbs"
    by (cases "retryJob db user p now") auto
  let ?reset = "\<lambda>j. j\<lparr>status := ''pending'', progress := 0, currentStage := None,
                            errorMessage := None, outputRecordCount := None,
                            piiDetectedCount := None, startedAt := None,
                            completedAt := None, updatedAt := now\<rparr>"
  from retryJob_InrD[OF r] obtain jobId db1 db2 where
    d1: "db1 = update_processingJobs db jobId ?reset"
    and d2: "db2 = insert_jobLogs db1 jobId ''info'' ''Job queued for retry'' now"
    and dbs: "dbs = [db1, db2,
                   update_processingJobs db2 jobId
                     (\<lambda>j. j\<lparr>status := ''processing'', startedAt := Some now,
                              currentStage := Some ''initializing''\<rparr>)]"
    by blast
  have c1: "consistent db1"
    unfolding d1 using assms(1)
    by (intro consistent_update) (simp_all add: completedAt_iff_terminal_def terminal_def)
  have c2: "consistent db2" using c1 by (simp add: d2)
  have c3: "consistent (update_processingJobs db2 jobId
                     (\<lambda>j. j\<lparr>status := ''processing'', startedAt := Some now,
                              currentStage := Some ''initializing''\<rparr>))"
  proof (rule consistent_update[OF c2])
    fix j assume "j \<in> set (processingJobs db2)" "job_id j = jobId"
    then obtain j0 where "j = ?reset j0"
      by (auto simp: d2 d1 update_processingJobs_def split: if_splits)
    then show "completedAt_iff_terminal
                 (j\<lparr>status := ''processing'', startedAt := Some now,
                    currentStage := Some ''initializing''\<rparr>)"
      by (simp add: completedAt_iff_terminal_def terminal_def)
  qed simp
  from d dbs c1 c2 c3 show ?thesis by auto
qed (use assms(2) in simp_all)

lemma sample_db_consistent: "consistent sample_db"
  by code_simp

lemma api_status_update:
  assumes "list_all (\<lambda>j. api_status (status j)) (processingJobs db)"
    and "\<And>j. api_status (status (f j))"
  shows "list_all (\<lambda>j. api_status (status j)) (processingJobs (update_processingJobs db i f))"
  using assms by (auto simp: update_processingJobs_def list_all_iff)

lemma writes_api_status:
  assumes "list_all (\<lambda>j. api_status (status j)) (processingJobs db)"
    and "d \<in> set (writes db r)"
  shows "list_all (\<lambda>j. api_status (status j)) (processingJobs d)"
proof (cases r)
  case (CreateJob user p body now)
  with assms(2) obtain dbs resp where
    r: "createJob db user p body now = Inr (dbs, resp)" and d: "d \<in> set dbs"
    by (cases "createJob db user p body now") auto
  from createJob_trace[OF r] obtain pid m s db1 db2 where
    d1: "db1 = fst (insert_processingJobs db (createJob_values user pid m s body now))"
    and d2: "db2 = insert_jobLogs db1 (processingJobs_id_seq db) ''info''
                    ''Job created and queued for processing'' now"
    and dbs: "dbs = [db1, db2,
                   update_processingJobs db2 (processingJobs_id_seq db)
                     (\<lambda>j. j\<lparr>status := ''processing'', startedAt := Some now,
                              currentStage := Some ''initializing''\<rparr>)]"
    by blast
  have a1: "list_all (\<lambda>j. api_status (status j)) (processingJobs db1)"
    using assms(1)
    by (simp add: d1 insert_processingJobs_def Let_def createJob_values_def api_status_def)
  have a2: "list_all (\<lambda>j. api_status (status j)) (processingJobs db2)"
    using a1 by (simp add: d2)
  have a3: "list_all (\<lambda>j. api_status (status j))
              (processingJobs (update_processingJobs db2 (processingJobs_id_seq db)
                     (\<lambda>j. j\<lparr>status := ''processing'', startedAt := Some now,
                              currentStage := Some ''initializing''\<rparr>)))"
    using a2 by (rule api_status_update) (simp add: api_status_def)
  from d dbs a1 a2 a3 show ?thesis by auto
next
  case (CancelJob user p now)
  with assms(2) obtain dbs msg where
    r: "cancelJob db user p now = Inr (dbs, msg)" and d: "d \<in> set dbs"
    by (cases "cancelJob db user p now") auto
  from cancelJob_InrD[OF r] obtain jobId db1 where
    d1: "db1 = update_processingJobs db jobId
                   (\<lambda>j. j\<lparr>status := ''cancelled'', completedAt := Some now, updatedAt := now\<rparr>)"
    and dbs: "dbs = [db1, insert_jobLogs db1 jobId ''info'' ''Job cancelled by user'' now]"
    by blast
  have a1: "list_all (\<lambda>j. api_status (status j)) (processingJobs db1)"
    unfolding d1 using assms(1) by (rule api_status_update) (simp add: api_status_def)
  from d dbs a1 show ?thesis by auto
next
  case (RetryJob user p now)
  with assms(2) obtain dbs msg where
    r: "retryJob db user p now = Inr (dbs, msg)" and d: "d \<in> set dbs"
    by (cases "retryJob db user p now") auto
  from retryJob_InrD[OF r] obtain jobId db1 db2 where
    d1: "db1 = update_processingJobs db jobId
                   (\<lambda>j. j\<lparr>status := ''pending'', progress := 0, currentStage := None,
                            errorMessage := None, outputRecordCount := None,
                            piiDetectedCount := None, startedAt := None,
                            completedAt := None, updatedAt := now\<rparr>)"
    and d2: "db2 = insert_jobLogs db1 jobId ''info'' ''Job queued for retry'' now"
    and dbs: "dbs = [db1, db2,
                   update_processingJobs db2 jobId
                     (\<lambda>j. j\<lparr>status := ''processing'', startedAt := Some now,
                              currentStage := Some ''initializing''\<rparr>)]"
    by blast
  have a1: "list_all (\<lambda>j. api_status (status j)) (processingJobs db1)"
    unfolding d1 using assms(1) by (rule api_status_update) (simp add: api_status_def)
  have a2: "list_all (\<lambda>j. api_status (status j)) (processingJobs db2)"
    using a1 by (simp add: d2)
  have a3: "list_all (\<lambda>j. api_status (status j))
              (processingJobs (update_processingJobs db2 jobId
                     (\<lambda>j. j\<lparr>status := ''processing'', startedAt := Some now,
                              currentStage := Some ''initializing''\<rparr>)))"
    using a2 by (rule api_status_update) (simp add: api_status_def)
  from d dbs a1 a2 a3 show ?thesis by auto
qed (use assms(2) in simp_all)

lemma interleave_one_request:
  "interleave db [] [Arrive r, Advance 0, Advance 0, Advance 0] = run db [r]"
proof (cases r)
  case (CreateJob user p body now)
  show ?thesis
  proof (cases "createJob db user p body now")
    case (Inl e)
    then show ?thesis using CreateJob by simp
  next
    case (Inr res)
    obtain dbs resp where res: "res = (dbs, resp)" by (cases res)
    note ok = Inr[unfolded res]
    from createJob_InrD[OF ok] obtain pid prj m s where
      pre: "requireRole [''admin'', ''editor''] user = Inr ()"
           "validateBody_createJobSchema body = Inr ()"
           "parseIntParam p ''projectId'' = Inr pid"
           "verifyProjectAccess db pid (jwt_organisationId user) = Inr prj"
           "findMapping db (body_schemaMappingId body) pid = Inr (Some m)"
           "mapping_isActive m = 1"
           "relatedDataSource db m = Some s"
           "source_status s = ''ready''"
      by blast
    from createJob_success[OF pre, where now = now] ok
    have dbs: "dbs =
      [fst (insert_processingJobs db (createJob_values user pid m s body now)),
       insert_jobLogs (fst (insert_processingJobs db (createJob_values user pid m s body now)))
         (processingJobs_id_seq db) ''info'' ''Job created and queued for processing'' now,
       update_processingJobs
         (insert_jobLogs (fst (insert_processingJobs db (createJob_values user pid m s body now)))
            (processingJobs_id_seq db) ''info'' ''Job created and queued for processing'' now)
         (processingJobs_id_seq db)
         (\<lambda>j. j\<lparr>status := ''processing'', startedAt := Some now,
                  currentStage := Some ''initializing''\<rparr>)]"
      by auto
    have c: "checks db r = Some (CreateInsert user pid m s body now)"
      using CreateJob ok pre by simp
    have w: "writes db r = dbs" using CreateJob ok by simp
    show ?thesis
      by (simp add: c w dbs insert_processingJobs_def Let_def createJob_values_def)
  qed
next
  case (CancelJob user p now)
  show ?thesis
  proof (cases "cancelJob db user p now")
    case (Inl e)
    then show ?thesis using CancelJob by simp
  next
    case (Inr res)
    obtain dbs msg where res: "res = (dbs, msg)" by (cases res)
    note ok = Inr[unfolded res]
    from ok obtain jobId where i: "parseIntParam p ''jobId'' = Inr jobId"
      by (auto simp: cancelJob_def split: sum.splits)
    from cancelJob_InrD[OF ok] i have dbs: "dbs =
      [update_processingJobs db jobId
         (\<lambda>j. j\<lparr>status := ''cancelled'', completedAt := Some now, updatedAt := now\<rparr>),
       insert_jobLogs
         (update_processingJobs db jobId
            (\<lambda>j. j\<lparr>status := ''cancelled'', completedAt := Some now, updatedAt := now\<rparr>))
         jobId ''info'' ''Job cancelled by user'' now]"
      using ok by (auto simp: cancelJob_def Let_def split: sum.splits option.splits if_splits)
    have c: "checks db r = Some (CancelUpdate jobId now)"
      using CancelJob ok i by simp
    have w: "writes db r = dbs" using CancelJob ok by simp
    show ?thesis by (simp add: c w dbs)
  qed
next
  case (RetryJob user p now)
  show ?thesis
  proof (cases "retryJob db user p now")
    case (Inl e)
    then show ?thesis using RetryJob by simp
  next
    case (Inr res)
    obtain dbs msg where res: "res = (dbs, msg)" by (cases res)
    note ok = Inr[unfolded res]
    from ok obtain jobId where i: "parseIntParam p ''jobId'' = Inr jobId"
      by (auto simp: retryJob_def split: sum.splits)
    have dbs: "dbs =
      [update_processingJobs db jobId
         (\<lambda>j. j\<lparr>status := ''pending'', progress := 0, currentStage := None,
                  errorMessage := None, outputRecordCount := None,
                  piiDetectedCount := None, startedAt := None,
                  completedAt := None, updatedAt := now\<rparr>),
       insert_jobLogs
         (update_processingJobs db jobId
            (\<lambda>j. j\<lparr>status := ''pending'', progress := 0, currentStage := None,
                     errorMessage := None, outputRecordCount := None,
                     piiDetectedCount := None, startedAt := None,
                     completedAt := None, updatedAt := now\<rparr>))
         jobId ''info'' ''Job queued for retry'' now,
       update_processingJobs
         (insert_jobLogs
            (update_processingJobs db jobId
               (\<lambda>j. j\<lparr>status := ''pending'', progress := 0, currentStage := None,
                        errorMessage := None, outputRecordCount := None,
                        piiDetectedCount := None, startedAt := None,
                        completedAt := None, updatedAt := now\<rparr>))
            jobId ''info'' ''Job queued for retry'' now)
         jobId
         (\<lambda>j. j\<lparr>status := ''processing'', startedAt := Some now,
                  currentStage := Some ''initializing''\<rparr>)]"
      using ok i by (auto simp: retryJob_def Let_def split: sum.splits option.splits if_splits)
    have c: "checks db r = Some (RetryReset jobId now)"
      using RetryJob ok i by simp
    have w: "writes db r = dbs" using RetryJob ok by simp
    show ?thesis by (simp add: c w dbs)
  qed
qed simp_all

text \<open>
  Claim C7, as the handlers have it. Start from a database in which every job has
  \<open>completedAt\<close> set exactly when its status is completed, failed or cancelled, and in
  which the ids are below the next value of the sequence (so from any database without
  jobs, in particular). Serve any sequence of requests one at a time, each from its
  checks to its last write. Then in every database value on the way, after each single
  write of create, cancel and retry, every job has \<open>completedAt\<close> set exactly when its
  status is completed, failed or cancelled.
\<close>

theorem completedAt_iff_terminal_invariant:
  assumes "consistent db0"
    and "d \<in> set (run db0 reqs)"
    and "j \<in> set (processingJobs d)"
  shows "(completedAt j \<noteq> None) = (status j \<in> {''completed'', ''failed'', ''cancelled''})"
proof -
  have "consistent d"
    using writes_consistent assms(1,2) by (rule run_invariant)
  with assms(3) have "completedAt_iff_terminal j"
    by (simp add: consistent_def list_all_iff)
  then show ?thesis
    by (simp add: completedAt_iff_terminal_def terminal_def)
qed

theorem completedAt_iff_terminal_invariant_witness:
  "consistent sample_db
   \<and> list_all (\<lambda>d. list_all (\<lambda>j. (completedAt j \<noteq> None) =
                                    (status j \<in> {''completed'', ''failed'', ''cancelled''}))
                          (processingJobs d))
        (run sample_db [CancelJob sample_user ''1'' 2000, RetryJob sample_user ''2'' 3000,
                        CreateJob sample_user ''1'' sample_body 4000])
   \<and> map (\<lambda>j. (status j, completedAt j))
        (processingJobs (last
          (run sample_db [CancelJob sample_user ''1'' 2000, RetryJob sample_user ''2'' 3000,
                          CreateJob sample_user ''1'' sample_body 4000]))) =
       [(''cancelled'', Some 2000), (''processing'', None), (''completed'', Some 900),
        (''processing'', None)]"
proof -
  have final: "map (\<lambda>j. (status j, completedAt j))
        (processingJobs (last
          (run sample_db [CancelJob sample_user ''1'' 2000, RetryJob sample_user ''2'' 3000,
                          CreateJob sample_user ''1'' sample_body 4000]))) =
       [(''cancelled'', Some 2000), (''processing'', None), (''completed'', Some 900),
        (''processing'', None)]"
    by code_simp
  have "\<And>d j. d \<in> set (run sample_db [CancelJob sample_user ''1'' 2000,
                     RetryJob sample_user ''2'' 3000, CreateJob sample_user ''1'' sample_body 4000])
          \<Longrightarrow> j \<in> set (processingJobs d)
          \<Longrightarrow> (completedAt j \<noteq> None) = (status j \<in> {''completed'', ''failed'', ''cancelled''})"
    by (rule completedAt_iff_terminal_invariant[OF sample_db_consistent])
  then show ?thesis
    using sample_db_consistent final by (simp add: list_all_iff)
qed

text \<open>
  The claim as stated has no such restriction, and the handlers run their statements in
  no transaction. On the sample database, a cancel of job 2 that arrives after the
  first write of a retry of job 2 finds the job pending and sets \<open>completedAt\<close>; the
  last write of the retry then sets the status to processing and leaves \<open>completedAt\<close>.
  In the same way, on the database without jobs, a cancel of job 1 between the insert
  and the last write of the create that makes job 1 leaves a processing job with
  \<open>completedAt\<close> set.
\<close>

theorem interleaved_cancel_counterexample:
  "consistent sample_db
   \<and> map (\<lambda>j. (job_id j, status j, completedAt j))
       (processingJobs (last (interleave sample_db []
          [Arrive (RetryJob sample_user ''2'' 3000), Advance 0,
           Arrive (CancelJob sample_user ''2'' 3001), Advance 1, Advance 1,
           Advance 0, Advance 0]))) =
       [(1, ''processing'', None), (2, ''processing'', Some 3001), (3, ''completed'', Some 900)]
   \<and> processingJobs sample_empty_db = []
   \<and> map (\<lambda>j. (job_id j, status j, completedAt j))
       (processingJobs (last (interleave sample_empty_db []
          [Arrive (CreateJob sample_user ''1'' sample_body 1000), Advance 0,
           Arrive (CancelJob sample_user ''1'' 1001), Advance 1, Advance 1,
           Advance 0, Advance 0]))) =
       [(1, ''processing'', Some 1001)]"
  by code_simp

text \<open>
  Claim C9. Start from a database without jobs and serve any sequence of requests to the
  seven routes. Every job in every database value on the way has one of the statuses
  pending, processing and cancelled, never completed or failed.
\<close>

theorem completed_and_failed_unreachable:
  assumes "processingJobs db0 = []"
    and "d \<in> set (run db0 reqs)"
    and "j \<in> set (processingJobs d)"
  shows "status j \<in> {''pending'', ''processing'', ''cancelled''}
         \<and> status j \<noteq> ''completed'' \<and> status j \<noteq> ''failed''"
proof -
  have "list_all (\<lambda>j. api_status (status j)) (processingJobs db0)"
    using assms(1) by simp
  with writes_api_status have "list_all (\<lambda>j. api_status (status j)) (processingJobs d)"
    using assms(2) by (rule run_invariant)
  with assms(3) have "api_status (status j)"
    by (simp add: list_all_iff)
  then show ?thesis
    by (auto simp: api_status_def)
qed

theorem completed_and_failed_unreachable_witness:
  "processingJobs sample_empty_db = []
   \<and> list_all (\<lambda>d. list_all (\<lambda>j. status j \<in> {''pending'', ''processing'', ''cancelled''}
                                 \<and> status j \<noteq> ''completed'' \<and> status j \<noteq> ''failed'')
                          (processingJobs d))
        (run sample_empty_db
           [CreateJob sample_user ''1'' sample_body 1000, CancelJob sample_user ''1'' 2000,
            RetryJob sample_user ''1'' 3000, GetJobProgress sample_user ''1'' 3500,
            CreateJob sample_user ''1'' sample_body 4000])
   \<and> map (\<lambda>d. map status (processingJobs d))
        (run sample_empty_db
           [CreateJob sample_user ''1'' sample_body 1000, CancelJob sample_user ''1'' 2000,
            RetryJob sample_user ''1'' 3000, GetJobProgress sample_user ''1'' 3500,
            CreateJob sample_user ''1'' sample_body 4000]) =
       [[], [''pending''], [''pending''], [''processing''], [''cancelled''], [''cancelled''],
        [''cancelled'', ''pending''], [''cancelled'', ''pending''],
        [''cancelled'', ''processing'']]"
proof -
  have e: "processingJobs sample_empty_db = []" by (simp add: sample_empty_db_def)
  have tr: "map (\<lambda>d. map status (processingJobs d))
        (run sample_empty_db
           [CreateJob sample_user ''1'' sample_body 1000, CancelJob sample_user ''1'' 2000,
            RetryJob sample_user ''1'' 3000, GetJobProgress sample_user ''1'' 3500,
            CreateJob sample_user ''1'' sample_body 4000]) =
       [[], [''pending''], [''pending''], [''processing''], [''cancelled''], [''cancelled''],
        [''cancelled'', ''pending''], [''cancelled'', ''pending''],
        [''cancelled'', ''processing'']]"
    by code_simp
  have "\<And>d j. d \<in> set (run sample_empty_db
           [CreateJob sample_user ''1'' sample_body 1000, CancelJob sample_user ''1'' 2000,
            RetryJob sample_user ''1'' 3000, GetJobProgress sample_user ''1'' 3500,
            CreateJob sample_user ''1'' sample_body 4000])
          \<Longrightarrow> j \<in> set (processingJobs d)
          \<Longrightarrow> status j \<in> {''pending'', ''processing'', ''cancelled''}
         \<and> status j \<noteq> ''completed'' \<and> status j \<noteq> ''failed''"
    by (rule completed_and_failed_unreachable[OF e])
  then show ?thesis
    using e tr by (simp add: list_all_iff)
qed

subsection \<open>The job log\<close>

lemma bitLength_le: "n < 2 ^ k \<Longrightarrow> bitLength n \<le> k"
proof (induction k arbitrary: n)
  case 0
  then show ?case by (subst bitLength.simps) simp
next
  case (Suc k)
  show ?case
  proof (cases "n \<le> 0")
    case True
    then show ?thesis by (subst bitLength.simps) simp
  next
    case False
    from Suc.prems have "n div 2 < 2 ^ k" by simp
    from Suc.IH[OF this] False show ?thesis by (subst bitLength.simps) simp
  qed
qed

lemma toNumber_exact:
  assumes "\<bar>n\<bar> < 2 ^ 53"
  shows "toNumber n = n"
proof -
  have "bitLength \<bar>n\<bar> \<le> 53"
    by (rule bitLength_le[OF assms])
  then have e: "bitLength \<bar>n\<bar> - 53 = 0"
    by simp
  show ?thesis
    unfolding toNumber_def Let_def e by simp
qed

lemma offset_exact:
  assumes "1 \<le> page" and "1 \<le> sz" and "page * sz \<le> 2 ^ 53"
  shows "toNumber (toNumber (page - 1) * sz) = (page - 1) * sz"
proof -
  define B :: int where "B = 2 ^ 53"
  have B: "page * sz \<le> B" using assms(3) by (simp add: B_def)
  have "page * 1 \<le> page * sz"
    using assms(1,2) by (intro mult_left_mono) simp_all
  then have le: "page \<le> page * sz" by simp
  have eq: "(page - 1) * sz = page * sz - sz"
    by (simp add: algebra_simps)
  have nn: "0 \<le> (page - 1) * sz"
    using assms(1,2) by (intro mult_nonneg_nonneg) simp_all
  have b2: "(page - 1) * sz < B"
    unfolding eq using B assms(2) by linarith
  have b1: "\<bar>page - 1\<bar> < B"
    using le B assms(1) by linarith
  have b2': "\<bar>(page - 1) * sz\<bar> < B"
    using b2 nn by linarith
  show ?thesis
    using toNumber_exact[of "page - 1"] toNumber_exact[of "(page - 1) * sz"] b1 b2'
    unfolding B_def by simp
qed

lemma limit_offset_take_drop:
  "limit_offset l off rows = take (nat l) (drop (nat off) rows)"
  by (simp add: limit_offset_def)

lemma parseQueryInt_InrD:
  assumes "parseQueryInt v name d lo hi = Inr r"
  shows "(case v of None \<Rightarrow> r = d | Some s \<Rightarrow> parseInt s = Number r)
         \<and> (v \<noteq> None \<longrightarrow> (\<forall>l. lo = Some l \<longrightarrow> l \<le> r) \<and> (\<forall>h. hi = Some h \<longrightarrow> r \<le> h))"
  using assms
  by (auto simp: parseQueryInt_def split: option.splits js_number.splits if_splits)

lemma parseQueryInt_reject:
  assumes "\<And>n. parseInt s = Number n \<Longrightarrow> n < lo \<or> hi < n"
  shows "\<exists>m c. parseQueryInt (Some s) name d (Some lo) (Some hi) = Inl (BadRequestError m c)"
  using assms
  by (cases "parseInt s") (auto simp: parseQueryInt_def)

lemma parseQueryInt_cases:
  "(\<exists>m c. parseQueryInt v name d lo hi = Inl (BadRequestError m c))
   \<or> (\<exists>r. parseQueryInt v name d lo hi = Inr r)"
  by (auto simp: parseQueryInt_def split: option.splits js_number.splits)

lemma parseIntParam_cases:
  "(\<exists>m c. parseIntParam v name = Inl (BadRequestError m c)) \<or> (\<exists>r. parseIntParam v name = Inr r)"
  by (auto simp: parseIntParam_def split: js_number.splits)

lemma parsePaginationParams_InrD:
  assumes "parsePaginationParams q = Inr pp"
  shows "(case query_page q of None \<Rightarrow> pp_page pp = 1 | Some s \<Rightarrow> parseInt s = Number (pp_page pp))
       \<and> (case query_page_size q of
             None \<Rightarrow> pp_limit pp = 20 | Some s \<Rightarrow> parseInt s = Number (pp_limit pp))
       \<and> 1 \<le> pp_page pp \<and> 1 \<le> pp_limit pp \<and> pp_limit pp \<le> 100
       \<and> pp_offset pp = toNumber (toNumber (pp_page pp - 1) * pp_limit pp)"
proof -
  from assms obtain page limit where
    p: "parseQueryInt (query_page q) ''page'' 1 (Some 1) None = Inr page"
    and l: "parseQueryInt (query_page_size q) ''page_size'' 20 (Some 1) (Some 100) = Inr limit"
    and pp: "pp = \<lparr>pp_page = page, pp_limit = limit,
                   pp_offset = toNumber (toNumber (page - 1) * limit)\<rparr>"
    by (auto simp: parsePaginationParams_def split: sum.splits)
  from parseQueryInt_InrD[OF p] parseQueryInt_InrD[OF l] pp show ?thesis
    by (auto split: option.splits)
qed

lemma parsePaginationParams_reject:
  assumes "query_page_size q = Some s"
    and "\<And>n. parseInt s = Number n \<Longrightarrow> n < 1 \<or> 100 < n"
  shows "\<exists>m c. parsePaginationParams q = Inl (BadRequestError m c)"
proof -
  from parseQueryInt_reject[of s 1 100 "''page_size''" 20] assms(2) obtain m c where
    l: "parseQueryInt (Some s) ''page_size'' 20 (Some 1) (Some 100) = Inl (BadRequestError m c)"
    by blast
  from parseQueryInt_cases[of "query_page q" "''page''" 1 "Some 1" None] show ?thesis
    using l assms(1) by (auto simp: parsePaginationParams_def)
qed

lemma formatLog_InrD:
  assumes "formatLog J entry = Inr v"
  shows "lv_id v = log_id entry \<and> lv_level v = log_level entry
       \<and> lv_message v = log_message entry \<and> lv_timestamp v = log_createdAt entry"
  using assms by (auto simp: formatLog_def split: option.splits if_splits)

lemma mapM_formatLog_InrD:
  assumes "mapM (formatLog J) xs = Inr ys"
  shows "map lv_id ys = map log_id xs \<and> map lv_level ys = map log_level xs
       \<and> map lv_message ys = map log_message xs
       \<and> map lv_timestamp ys = map log_createdAt xs"
  using assms
proof (induction xs arbitrary: ys)
  case Nil
  then show ?case by simp
next
  case (Cons x xs)
  from Cons.prems obtain y ys' where
    y: "formatLog J x = Inr y" and ys': "mapM (formatLog J) xs = Inr ys'" and e: "ys = y # ys'"
    by (auto split: sum.splits)
  from formatLog_InrD[OF y] Cons.IH[OF ys'] e show ?case by simp
qed

lemma orderBy_desc_sorted:
  "sorted_wrt (\<lambda>a b. key b \<le> key a) (orderBy_desc key rows)"
proof -
  have "sorted (map (\<lambda>r. - key r) (orderBy_desc key rows))"
    by (simp add: orderBy_desc_def)
  then show ?thesis
    by (simp add: sorted_map)
qed

lemma orderBy_desc_mset: "mset (orderBy_desc key rows) = mset rows"
  by (simp add: orderBy_desc_def)

text \<open>
  Claim C10. When the log endpoint answers, its entries are a page of the job's log
  entries in descending order of \<open>createdAt\<close> (newest first): \<open>pageSize\<close> entries of the
  ordered list from the offset on, the offset being \<open>(page - 1) * pageSize\<close> in double
  arithmetic (exactly that product when \<open>page * pageSize\<close> is at most \<open>2^53\<close>). The page is
  1 when the query has no \<open>page\<close>, the page size is 20 when it has no \<open>page_size\<close>, and
  otherwise they are the numbers \<^verbatim>\<open>parseInt\<close> reads from the parameters, with the page
  at least 1 and the page size between 1 and 100. A \<open>page_size\<close> from which
  \<^verbatim>\<open>parseInt\<close> reads no number between 1 and 100 is rejected with a BadRequest error.
\<close>

theorem getJobLogs_newest_first_paginated:
  "(getJobLogs JSON_parse db user jobIdParam q = Inr (logs, pg) \<longrightarrow>
      (\<exists>jobId rows offset page.
          parseIntParam jobIdParam ''jobId'' = Inr jobId
        \<and> mset rows = mset (filter (\<lambda>l. log_jobId l = jobId) (jobLogs db))
        \<and> sorted_wrt (\<lambda>a b. log_createdAt b \<le> log_createdAt a) rows
        \<and> offset = toNumber (toNumber (pg_page pg - 1) * pg_pageSize pg)
        \<and> (pg_page pg * pg_pageSize pg \<le> 2 ^ 53 \<longrightarrow> offset = (pg_page pg - 1) * pg_pageSize pg)
        \<and> offset \<le> 2 ^ 63 - 1
        \<and> page = take (nat (pg_pageSize pg)) (drop (nat offset) rows)
        \<and> map lv_id logs = map log_id page
        \<and> map lv_level logs = map log_level page
        \<and> map lv_message logs = map log_message page
        \<and> map lv_timestamp logs = map log_createdAt page
        \<and> (case query_page q of None \<Rightarrow> pg_page pg = 1 | Some s \<Rightarrow> parseInt s = Number (pg_page pg))
        \<and> (case query_page_size q of
              None \<Rightarrow> pg_pageSize pg = 20 | Some s \<Rightarrow> parseInt s = Number (pg_pageSize pg))
        \<and> 1 \<le> pg_page pg \<and> 1 \<le> pg_pageSize pg \<and> pg_pageSize pg \<le> 100
        \<and> pg_totalCount pg = int (length rows)))
   \<and> (query_page_size q = Some s \<and> (\<forall>n. parseInt s = Number n \<longrightarrow> n < 1 \<or> 100 < n) \<longrightarrow>
        (\<exists>m c. getJobLogs JSON_parse db user jobIdParam q = Inl (BadRequestError m c)))"
proof (intro conjI impI)
  assume ok: "getJobLogs JSON_parse db user jobIdParam q = Inr (logs, pg)"
  then obtain jobId pp where
    i: "parseIntParam jobIdParam ''jobId'' = Inr jobId"
    and pp: "parsePaginationParams q = Inr pp"
    and big: "\<not> pp_offset pp > 2 ^ 63 - 1"
    and m: "mapM (formatLog JSON_parse)
              (limit_offset (pp_limit pp) (pp_offset pp)
                 (orderBy_desc log_createdAt (filter (\<lambda>l. log_jobId l = jobId) (jobLogs db)))) =
            Inr logs"
    and pg: "pg = calculatePagination (pp_page pp) (pp_limit pp)
                    (int (length (filter (\<lambda>l. log_jobId l = jobId) (jobLogs db))))"
    by (auto simp: getJobLogs_def Let_def split: sum.splits option.splits if_splits)
  let ?rows = "orderBy_desc log_createdAt (filter (\<lambda>l. log_jobId l = jobId) (jobLogs db))"
  let ?offset = "toNumber (toNumber (pg_page pg - 1) * pg_pageSize pg)"
  let ?page = "take (nat (pg_pageSize pg)) (drop (nat ?offset) ?rows)"
  have pgf: "pp_page pp = pg_page pg" "pp_limit pp = pg_pageSize pg"
    "pg_totalCount pg = int (length (filter (\<lambda>l. log_jobId l = jobId) (jobLogs db)))"
    by (simp_all add: pg calculatePagination_def)
  have len: "length ?rows = length (filter (\<lambda>l. log_jobId l = jobId) (jobLogs db))"
    by (simp add: orderBy_desc_def)
  note P = parsePaginationParams_InrD[OF pp, unfolded pgf]
  have off: "pp_offset pp = ?offset"
    using P by simp
  have m': "mapM (formatLog JSON_parse) ?page = Inr logs"
    using m by (simp only: pgf off limit_offset_take_drop)
  note M = mapM_formatLog_InrD[OF m']
  have c1: "mset ?rows = mset (filter (\<lambda>l. log_jobId l = jobId) (jobLogs db))"
    by (rule orderBy_desc_mset)
  have c2: "sorted_wrt (\<lambda>a b. log_createdAt b \<le> log_createdAt a) ?rows"
    by (rule orderBy_desc_sorted)
  have c3: "(case query_page q of None \<Rightarrow> pg_page pg = 1 | Some s \<Rightarrow> parseInt s = Number (pg_page pg))"
    using P by simp
  have c4: "(case query_page_size q of
              None \<Rightarrow> pg_pageSize pg = 20 | Some s \<Rightarrow> parseInt s = Number (pg_pageSize pg))"
    using P by simp
  have c5: "1 \<le> pg_page pg" "1 \<le> pg_pageSize pg" "pg_pageSize pg \<le> 100"
    using P by simp_all
  have c6: "pg_totalCount pg = int (length ?rows)"
    by (simp only: pgf len)
  have c7: "pg_page pg * pg_pageSize pg \<le> 2 ^ 53 \<longrightarrow> ?offset = (pg_page pg - 1) * pg_pageSize pg"
    using offset_exact[OF c5(1,2)] by blast
  have c8: "?offset \<le> 2 ^ 63 - 1"
    using big off by simp
  have c0: "?offset = toNumber (toNumber (pg_page pg - 1) * pg_pageSize pg)" ..
  have c9: "?page = take (nat (pg_pageSize pg)) (drop (nat ?offset) ?rows)" ..
  show "\<exists>jobId rows offset page.
          parseIntParam jobIdParam ''jobId'' = Inr jobId
        \<and> mset rows = mset (filter (\<lambda>l. log_jobId l = jobId) (jobLogs db))
        \<and> sorted_wrt (\<lambda>a b. log_createdAt b \<le> log_createdAt a) rows
        \<and> offset = toNumber (toNumber (pg_page pg - 1) * pg_pageSize pg)
        \<and> (pg_page pg * pg_pageSize pg \<le> 2 ^ 53 \<longrightarrow> offset = (pg_page pg - 1) * pg_pageSize pg)
        \<and> offset \<le> 2 ^ 63 - 1
        \<and> page = take (nat (pg_pageSize pg)) (drop (nat offset) rows)
        \<and> map lv_id logs = map log_id page
        \<and> map lv_level logs = map log_level page
        \<and> map lv_message logs = map log_message page
        \<and> map lv_timestamp logs = map log_createdAt page
        \<and> (case query_page q of None \<Rightarrow> pg_page pg = 1 | Some s \<Rightarrow> parseInt s = Number (pg_page pg))
        \<and> (case query_page_size q of
              None \<Rightarrow> pg_pageSize pg = 20 | Some s \<Rightarrow> parseInt s = Number (pg_pageSize pg))
        \<and> 1 \<le> pg_page pg \<and> 1 \<le> pg_pageSize pg \<and> pg_pageSize pg \<le> 100
        \<and> pg_totalCount pg = int (length rows)"
    apply (rule exI[of _ jobId], rule exI[of _ ?rows], rule exI[of _ ?offset], rule exI[of _ ?page])
    apply (intro conjI)
    apply (rule i c1 c2 c0 c7 c8 c9 M[THEN conjunct1] M[THEN conjunct2, THEN conjunct1]
             M[THEN conjunct2, THEN conjunct2, THEN conjunct1]
             M[THEN conjunct2, THEN conjunct2, THEN conjunct2] c3 c4 c5 c6)+
    done
next
  assume bad: "query_page_size q = Some s \<and> (\<forall>n. parseInt s = Number n \<longrightarrow> n < 1 \<or> 100 < n)"
  then obtain m c where r: "parsePaginationParams q = Inl (BadRequestError m c)"
    using parsePaginationParams_reject[of q s] by blast
  from parseIntParam_cases[of jobIdParam "''jobId''"] r
  show "\<exists>m c. getJobLogs JSON_parse db user jobIdParam q = Inl (BadRequestError m c)"
    by (auto simp: getJobLogs_def)
qed

lemma getJobLogs_sample_answers:
  "map_sum id snd (getJobLogs (\<lambda>s. Some s) sample_logged_db sample_user ''1''
     (sample_query\<lparr>query_page_size := Some [CHR 0xC2, CHR 0xA0, CHR ''5'']\<rparr>)) =
     Inr \<lparr>pg_page = 1, pg_pageSize = 5, pg_totalPages = 1, pg_totalCount = 3\<rparr>"
  "map_sum id snd (getJobLogs (\<lambda>s. Some s) sample_logged_db sample_user ''1''
     (sample_query\<lparr>query_page := Some ''9007199254740993''\<rparr>)) =
     Inr \<lparr>pg_page = 9007199254740992, pg_pageSize = 20, pg_totalPages = 1, pg_totalCount = 3\<rparr>"
  "getJobLogs (\<lambda>s. Some s) sample_logged_db sample_user ''1''
     (sample_query\<lparr>query_page := Some ''100000000000000000000''\<rparr>) = Inl DatabaseError"
  "getJobLogs (\<lambda>s. Some s) sample_logged_db sample_user ''2147483648'' sample_query =
     Inl DatabaseError"
  by code_simp+

theorem getJobLogs_newest_first_paginated_witness:
  "getJobLogs (\<lambda>s. Some s) sample_logged_db sample_user ''1''
     (sample_query\<lparr>query_page := Some ''2'', query_page_size := Some ''2''\<rparr>) =
     Inr ([\<lparr>lv_id = 1, lv_level = ''info'',
            lv_message = ''Job created and queued for processing'',
            lv_details = None, lv_timestamp = 100\<rparr>],
          \<lparr>pg_page = 2, pg_pageSize = 2, pg_totalPages = 2, pg_totalCount = 3\<rparr>)
   \<and> (\<exists>rows.
         mset rows = mset (filter (\<lambda>l. log_jobId l = 1) (jobLogs sample_logged_db))
       \<and> sorted_wrt (\<lambda>a b. log_createdAt b \<le> log_createdAt a) rows
       \<and> map log_id (take 2 (drop 2 rows)) = [1]
       \<and> length rows = 3)
   \<and> query_page_size (sample_query\<lparr>query_page_size := Some ''101''\<rparr>) = Some ''101''
   \<and> parseInt ''101'' = Number 101
   \<and> (\<exists>m c. getJobLogs (\<lambda>s. Some s) sample_logged_db sample_user ''1''
               (sample_query\<lparr>query_page_size := Some ''101''\<rparr>) = Inl (BadRequestError m c))"
proof -
  let ?J = "\<lambda>s::string. Some s"
  let ?q = "sample_query\<lparr>query_page := Some ''2'', query_page_size := Some ''2''\<rparr>"
  let ?q' = "sample_query\<lparr>query_page_size := Some ''101''\<rparr>"
  let ?logs = "[\<lparr>lv_id = 1, lv_level = ''info'',
            lv_message = ''Job created and queued for processing'',
            lv_details = None :: string option, lv_timestamp = 100\<rparr>]"
  let ?pg = "\<lparr>pg_page = 2, pg_pageSize = 2, pg_totalPages = 2, pg_totalCount = 3\<rparr>"
  have r: "getJobLogs ?J sample_logged_db sample_user ''1'' ?q = Inr (?logs, ?pg)"
    by code_simp
  have p101: "parseInt ''101'' = Number 101" by code_simp
  have qs: "query_page_size ?q' = Some ''101''" by simp
  from getJobLogs_newest_first_paginated[of ?J sample_logged_db sample_user "''1''" ?q ?logs ?pg,
         THEN conjunct1, THEN mp, OF r]
  obtain jobId rows offset page where
    j: "parseIntParam ''1'' ''jobId'' = Inr jobId"
    and m: "mset rows = mset (filter (\<lambda>l. log_jobId l = jobId) (jobLogs sample_logged_db))"
    and s: "sorted_wrt (\<lambda>a b. log_createdAt b \<le> log_createdAt a) rows"
    and ex: "pg_page ?pg * pg_pageSize ?pg \<le> 2 ^ 53 \<longrightarrow> offset = (pg_page ?pg - 1) * pg_pageSize ?pg"
    and pg: "page = take (nat (pg_pageSize ?pg)) (drop (nat offset) rows)"
    and i: "map lv_id ?logs = map log_id page"
    and n: "pg_totalCount ?pg = int (length rows)"
    by (elim exE conjE) (rule that; assumption)
  from j parse_jobId_1 have j1: "jobId = 1" by simp
  from ex have off: "offset = 2" by simp
  from i have i': "map log_id (take 2 (drop 2 rows)) = [1]" by (simp add: pg off)
  from n have n': "length rows = 3" by simp
  have a: "\<exists>rows.
         mset rows = mset (filter (\<lambda>l. log_jobId l = 1) (jobLogs sample_logged_db))
       \<and> sorted_wrt (\<lambda>a b. log_createdAt b \<le> log_createdAt a) rows
       \<and> map log_id (take 2 (drop 2 rows)) = [1]
       \<and> length rows = 3"
    by (rule exI[of _ rows], intro conjI) (rule m[unfolded j1] s i' n')+
  have h: "query_page_size ?q' = Some ''101''
           \<and> (\<forall>n. parseInt ''101'' = Number n \<longrightarrow> n < 1 \<or> 100 < n)"
    by (simp add: p101)
  note b = getJobLogs_newest_first_paginated[of ?J sample_logged_db sample_user "''1''" ?q' _ _ "''101''",
             THEN conjunct2, THEN mp, OF h]
  show ?thesis
    by (intro conjI) (rule r a qs p101 b)+
qed

end
